theory Spec2Isabelle
  imports Complex_Main "HOL-Library.Product_Lexorder" "HOL-Library.List_Lexorder"
begin

section \<open>Values, documents and errors\<close>

text \<open>
  The repositories store Python dictionaries in MongoDB collections. A value is modelled by
  \<open>pyval\<close>: \<open>None\<close>, booleans, integers, floats (as rationals), strings, \<open>ObjectId\<close>s
  (by their 24-digit hexadecimal text, so that \<open>str(oid)\<close> is the text itself), datetimes
  (microseconds on the clock), dictionaries with string keys in insertion order, and lists.
\<close>

datatype pyval =
    PNone
  | PBool bool
  | PInt int
  | PFloat rat
  | PStr string
  | PObjectId string
  | PDatetime int
  | PDict "(string \<times> pyval) list"
  | PList "pyval list"

type_synonym pydict = "(string \<times> pyval) list"

text \<open>The exceptions the repositories raise or meet; messages are kept where the code tells
  two raises of one class apart.\<close>

datatype error =
    RepositoryError
  | ConnectionError string
  | ValidationError string
  | TransactionError
  | DuplicateResourceError
  | ResourceNotFoundError
  | PydanticCustomError string
  | AttributeError
  | KeyError string
  | TypeError
  | ValueError string

text \<open>\<open>d.get(k)\<close>, \<open>k in d\<close> and \<open>d[k] = v\<close> on a Python dictionary: an assignment to a key
  already present keeps its position, a new key goes to the end.\<close>

definition dict_get :: "pydict \<Rightarrow> string \<Rightarrow> pyval option" where
  "dict_get d k = map_of d k"

definition dict_has :: "pydict \<Rightarrow> string \<Rightarrow> bool" where
  "dict_has d k = (map_of d k \<noteq> None)"

fun dict_set :: "pydict \<Rightarrow> string \<Rightarrow> pyval \<Rightarrow> pydict" where
  "dict_set [] k v = [(k, v)]"
| "dict_set ((k', v') # d) k v = (if k' = k then (k, v) # d else (k', v') # dict_set d k v)"

fun dict_update :: "pydict \<Rightarrow> pydict \<Rightarrow> pydict" where
  "dict_update d [] = d"
| "dict_update d ((k, v) # kvs) = dict_update (dict_set d k v) kvs"

text \<open>Truthiness of a value, as \<open>if not x\<close> tests it.\<close>

fun truthy :: "pyval \<Rightarrow> bool" where
  "truthy PNone = False"
| "truthy (PBool b) = b"
| "truthy (PInt i) = (i \<noteq> 0)"
| "truthy (PFloat r) = (r \<noteq> 0)"
| "truthy (PStr s) = (s \<noteq> [])"
| "truthy (PObjectId s) = True"
| "truthy (PDatetime t) = True"
| "truthy (PDict d) = (d \<noteq> [])"
| "truthy (PList xs) = (xs \<noteq> [])"

section \<open>Storage primitives (async\_mongo\_repository.py)\<close>

subsection \<open>Input sanitisation\<close>

text \<open>
  \<open>_sanitize_input\<close> drops every key that starts with \<open>$\<close>, recurses into dictionary values
  and into the dictionaries that are elements of a list value; other list elements (nested
  lists too) are kept as they are. A non-dictionary argument raises \<open>ValidationError\<close>.
\<close>

definition startswith_dollar :: "string \<Rightarrow> bool" where
  "startswith_dollar k = (case k of [] \<Rightarrow> False | c # _ \<Rightarrow> c = CHR ''$'')"

fun sanitize_items :: "pydict \<Rightarrow> pydict"
  and sanitize_value :: "pyval \<Rightarrow> pyval"
  and sanitize_elems :: "pyval list \<Rightarrow> pyval list" where
  "sanitize_items [] = []"
| "sanitize_items ((key, val) # rest) =
     (if startswith_dollar key then sanitize_items rest
      else (key, sanitize_value val) # sanitize_items rest)"
| "sanitize_value (PDict d) = PDict (sanitize_items d)"
| "sanitize_value (PList xs) = PList (sanitize_elems xs)"
| "sanitize_value PNone = PNone"
| "sanitize_value (PBool b) = PBool b"
| "sanitize_value (PInt i) = PInt i"
| "sanitize_value (PFloat r) = PFloat r"
| "sanitize_value (PStr s) = PStr s"
| "sanitize_value (PObjectId s) = PObjectId s"
| "sanitize_value (PDatetime t) = PDatetime t"
| "sanitize_elems [] = []"
| "sanitize_elems (PDict d # xs) = PDict (sanitize_items d) # sanitize_elems xs"
| "sanitize_elems (x # xs) = x # sanitize_elems xs"

definition sanitize_input :: "pyval \<Rightarrow> error + pydict" where
  "sanitize_input data =
     (case data of
        PDict d \<Rightarrow> Inr (sanitize_items d)
      | _ \<Rightarrow> Inl (ValidationError ''Input must be a dictionary''))"

subsection \<open>Circuit breaker\<close>

text \<open>Clock readings (\<open>datetime.now()\<close>) are integers counting microseconds; a
  \<open>timedelta\<close> is a difference of two of them.\<close>

type_synonym time = int

definition seconds :: "int \<Rightarrow> int" where
  "seconds n = n * 1000000"

datatype CircuitBreakerState = CLOSED | OPEN | HALF_OPEN

record CircuitBreakerConfig =
  failure_threshold :: int
  recovery_timeout :: int
  success_threshold :: int


record CircuitBreaker =
  config :: CircuitBreakerConfig
  state :: CircuitBreakerState
  failure_count :: int
  success_count :: int
  last_failure_time :: "time option"


text \<open>\<open>can_execute\<close> reads the clock (\<open>now\<close>) and may move the breaker from \<open>OPEN\<close> to
  \<open>HALF_OPEN\<close>; it returns the answer and the breaker.\<close>

definition can_execute :: "time \<Rightarrow> CircuitBreaker \<Rightarrow> bool \<times> CircuitBreaker" where
  "can_execute now cb =
     (case state cb of
        CLOSED \<Rightarrow> (True, cb)
      | OPEN \<Rightarrow>
          (case last_failure_time cb of
             None \<Rightarrow> (False, cb)
           | Some t \<Rightarrow>
               if now - t \<ge> seconds (recovery_timeout (config cb))
               then (True, cb\<lparr>state := HALF_OPEN, success_count := 0\<rparr>)
               else (False, cb))
      | HALF_OPEN \<Rightarrow> (True, cb))"

definition record_success :: "CircuitBreaker \<Rightarrow> CircuitBreaker" where
  "record_success cb =
     (case state cb of
        HALF_OPEN \<Rightarrow>
          (let cb1 = cb\<lparr>success_count := success_count cb + 1\<rparr>
           in if success_count cb1 \<ge> success_threshold (config cb1)
              then cb1\<lparr>state := CLOSED, failure_count := 0\<rparr>
              else cb1)
      | CLOSED \<Rightarrow> cb\<lparr>failure_count := 0\<rparr>
      | OPEN \<Rightarrow> cb)"

definition record_failure :: "time \<Rightarrow> CircuitBreaker \<Rightarrow> CircuitBreaker" where
  "record_failure now cb =
     (let cb1 = cb\<lparr>failure_count := failure_count cb + 1, last_failure_time := Some now\<rparr>
      in if state cb1 = HALF_OPEN then cb1\<lparr>state := OPEN\<rparr>
         else if state cb1 = CLOSED \<and> failure_count cb1 \<ge> failure_threshold (config cb1)
         then cb1\<lparr>state := OPEN\<rparr>
         else cb1)"

subsection \<open>Retry wrapper\<close>

text \<open>
  One \<open>await operation()\<close> either returns, raises one of the transient transport errors
  (\<open>NetworkTimeout\<close>, \<open>ServerSelectionTimeoutError\<close>, \<open>AutoReconnect\<close>) or raises anything
  else. The operation is a function from the attempt number to what that attempt does. The
  clock is a function from the reading's number to the time read: reading \<open>0\<close> is the one of
  \<open>can_execute\<close>, reading \<open>attempt + 1\<close> the one of the \<open>record_failure\<close> after that attempt, and
  reading \<open>max_retries + 2\<close> the one of the \<open>record_failure\<close> after the loop.

  The result is what \<open>_with_retry\<close> returns or raises, the breaker afterwards, and the number
  of times the operation was awaited.
\<close>

datatype 'a attempt = Returned 'a | RaisedTransient | RaisedOther

fun retry_loop ::
  "CircuitBreaker \<Rightarrow> (nat \<Rightarrow> time) \<Rightarrow> (nat \<Rightarrow> 'a attempt) \<Rightarrow> nat \<Rightarrow> nat \<Rightarrow> nat list
     \<Rightarrow> (error + 'a) \<times> CircuitBreaker \<times> nat" where
  "retry_loop cb clock operation max_retries calls [] =
     (Inl (ConnectionError ''Operation failed after all attempts''),
      record_failure (clock (max_retries + 2)) cb, calls)"
| "retry_loop cb clock operation max_retries calls (attempt # rest) =
     (case operation attempt of
        Returned result \<Rightarrow> (Inr result, record_success cb, Suc calls)
      | RaisedTransient \<Rightarrow>
          (let cb1 = record_failure (clock (attempt + 1)) cb
           in if attempt = max_retries
              then retry_loop cb1 clock operation max_retries (Suc calls) []
              else retry_loop cb1 clock operation max_retries (Suc calls) rest)
      | RaisedOther \<Rightarrow>
          (Inl RepositoryError, record_failure (clock (attempt + 1)) cb, Suc calls))"

definition with_retry ::
  "CircuitBreaker \<Rightarrow> (nat \<Rightarrow> time) \<Rightarrow> (nat \<Rightarrow> 'a attempt) \<Rightarrow> nat
     \<Rightarrow> (error + 'a) \<times> CircuitBreaker \<times> nat" where
  "with_retry cb clock operation max_retries =
     (case can_execute (clock 0) cb of
        (False, cb0) \<Rightarrow>
          (Inl (ConnectionError ''Circuit breaker is OPEN - operation blocked''), cb0, 0)
      | (True, cb0) \<Rightarrow> retry_loop cb0 clock operation max_retries 0 [0..<max_retries + 1])"


subsection \<open>Auxiliary notions for the circuit breaker\<close>






section \<open>The document store\<close>

text \<open>
  A collection is the list of its documents in natural (insertion) order. The functions of
  this section stand for the driver calls the repositories make on a collection
  (\<open>find_one\<close>, \<open>find\<close>, \<open>insert_one\<close>, \<open>update_one\<close>, \<open>delete_many\<close>,
  \<open>find_one_and_update\<close>); they cover the filters, updates and sort orders that the modelled
  calls use. The store is taken to be reachable: a driver call raises nothing, so that
  \<open>_with_retry\<close> hands its operation's result through.
\<close>

type_synonym collection = "pydict list"

subsection \<open>Filters\<close>

text \<open>
  A filter is a dictionary from field names to conditions. A condition whose keys are
  operators (\<open>$lt\<close>, \<open>$lte\<close>, \<open>$gt\<close>, \<open>$gte\<close>, \<open>$in\<close>) holds when every operator holds;
  any other condition is an equality, where a missing field equals \<open>None\<close>. Order
  comparisons hold between two datetimes or between two numbers only.
\<close>

fun num_of :: "pyval \<Rightarrow> rat option" where
  "num_of (PInt i) = Some (of_int i)"
| "num_of (PFloat r) = Some r"
| "num_of _ = None"

definition order_cmp :: "(rat \<Rightarrow> rat \<Rightarrow> bool) \<Rightarrow> pyval \<Rightarrow> pyval \<Rightarrow> bool" where
  "order_cmp rel v a =
     (case (v, a) of
        (PDatetime x, PDatetime y) \<Rightarrow> rel (of_int x) (of_int y)
      | _ \<Rightarrow> (case (num_of v, num_of a) of (Some x, Some y) \<Rightarrow> rel x y | _ \<Rightarrow> False))"

definition field_value :: "pydict \<Rightarrow> string \<Rightarrow> pyval" where
  "field_value doc k = (case dict_get doc k of None \<Rightarrow> PNone | Some v \<Rightarrow> v)"

definition operator_holds :: "pyval \<Rightarrow> string \<times> pyval \<Rightarrow> bool" where
  "operator_holds v oa =
     (case oa of (opr, a) \<Rightarrow>
        if opr = ''$lt'' then order_cmp (<) v a
        else if opr = ''$lte'' then order_cmp (\<le>) v a
        else if opr = ''$gt'' then order_cmp (>) v a
        else if opr = ''$gte'' then order_cmp (\<ge>) v a
        else if opr = ''$in'' then (case a of PList xs \<Rightarrow> v \<in> set xs | _ \<Rightarrow> False)
        else False)"

definition is_operator_doc :: "pyval \<Rightarrow> bool" where
  "is_operator_doc c = (case c of PDict ((k, _) # _) \<Rightarrow> startswith_dollar k | _ \<Rightarrow> False)"

definition condition_holds :: "pydict \<Rightarrow> string \<times> pyval \<Rightarrow> bool" where
  "condition_holds doc fc =
     (case fc of (field, c) \<Rightarrow>
        if is_operator_doc c
        then (case c of PDict ops \<Rightarrow> list_all (operator_holds (field_value doc field)) ops
              | _ \<Rightarrow> False)
        else field_value doc field = c)"

definition matches :: "pydict \<Rightarrow> pydict \<Rightarrow> bool" where
  "matches query doc = list_all (condition_holds doc) query"

subsection \<open>Updates\<close>

text \<open>\<open>{"$set": fields}\<close>: every field is written; a dotted name writes into the embedded
  document of that name.\<close>

fun split_dots :: "string \<Rightarrow> string \<Rightarrow> string list" where
  "split_dots acc [] = [rev acc]"
| "split_dots acc (c # cs) =
     (if c = CHR ''.'' then rev acc # split_dots [] cs else split_dots (c # acc) cs)"

fun set_at_path :: "pydict \<Rightarrow> string list \<Rightarrow> pyval \<Rightarrow> pydict" where
  "set_at_path d [] v = d"
| "set_at_path d [k] v = dict_set d k v"
| "set_at_path d (k # ks) v =
     dict_set d k
       (PDict (set_at_path (case dict_get d k of Some (PDict sub) \<Rightarrow> sub | _ \<Rightarrow> []) ks v))"

fun apply_set :: "pydict \<Rightarrow> pydict \<Rightarrow> pydict" where
  "apply_set doc [] = doc"
| "apply_set doc ((k, v) # flds) = apply_set (set_at_path doc (split_dots [] k) v) flds"

subsection \<open>Driver calls\<close>

definition coll_find_one :: "collection \<Rightarrow> pydict \<Rightarrow> pydict option" where
  "coll_find_one coll query = find (matches query) coll"

text \<open>\<open>find(query).skip(n).limit(m).to_list(None)\<close>.\<close>

definition coll_find_skip_limit :: "collection \<Rightarrow> pydict \<Rightarrow> nat \<Rightarrow> nat \<Rightarrow> pydict list" where
  "coll_find_skip_limit coll query n m = take m (drop n (filter (matches query) coll))"

text \<open>\<open>insert_one\<close>: the driver gives the document the fresh \<open>_id\<close> it generated (here
  \<open>oid\<close>, supplied by the caller of the model) unless it has one. The documents inserted in
  this development carry no \<open>_id\<close>; the \<open>DuplicateKeyError\<close> that the store raises for an
  \<open>_id\<close> it already holds is not modelled here.\<close>

definition coll_insert_one :: "collection \<Rightarrow> pydict \<Rightarrow> string \<Rightarrow> pyval \<times> collection" where
  "coll_insert_one coll document oid =
     (case dict_get document ''_id'' of
        Some i \<Rightarrow> (i, coll @ [document])
      | None \<Rightarrow> (PObjectId oid, coll @ [(''_id'', PObjectId oid) # document]))"

text \<open>\<open>update_one(query, {"$set": fields})\<close> without upsert changes the first document that
  matches; the result is \<open>modified_count\<close> and the collection.\<close>

fun coll_update_one :: "collection \<Rightarrow> pydict \<Rightarrow> pydict \<Rightarrow> nat \<times> collection" where
  "coll_update_one [] query flds = (0, [])"
| "coll_update_one (doc # rest) query flds =
     (if matches query doc
      then (if apply_set doc flds = doc then 0 else 1, apply_set doc flds # rest)
      else (case coll_update_one rest query flds of (n, rest') \<Rightarrow> (n, doc # rest')))"

text \<open>\<open>delete_many(query)\<close>: the result is \<open>deleted_count\<close> and the collection.\<close>

definition coll_delete_many :: "collection \<Rightarrow> pydict \<Rightarrow> nat \<times> collection" where
  "coll_delete_many coll query =
     (length (filter (matches query) coll), filter (\<lambda>d. \<not> matches query d) coll)"

text \<open>
  Sorting: a sort specification is a list of field names with a direction (\<open>1\<close> ascending,
  \<open>-1\<close> descending). Values are compared by the store's type brackets (null and missing,
  numbers, strings, objects, arrays, ObjectIds, booleans, dates) and, within the brackets
  of numbers, booleans and dates, by value; the order that the store has within the other
  brackets (strings by their text, for one) is not modelled, and values of such a bracket
  compare equal. The sort is stable, so documents that compare equal stay in natural
  order.
\<close>

fun bson_key :: "pyval \<Rightarrow> int \<times> rat" where
  "bson_key PNone = (1, 0)"
| "bson_key (PInt i) = (2, of_int i)"
| "bson_key (PFloat r) = (2, r)"
| "bson_key (PStr s) = (3, 0)"
| "bson_key (PDict d) = (4, 0)"
| "bson_key (PList xs) = (5, 0)"
| "bson_key (PObjectId s) = (7, 0)"
| "bson_key (PBool b) = (8, if b then 1 else 0)"
| "bson_key (PDatetime t) = (9, of_int t)"

definition sort_key_of :: "(string \<times> int) list \<Rightarrow> pydict \<Rightarrow> (int \<times> rat) list" where
  "sort_key_of spec doc =
     map (\<lambda>(field, dir).
            (case bson_key (field_value doc field) of (b, x) \<Rightarrow> (dir * b, of_int dir * x)))
         spec"

text \<open>\<open>find_one_and_update(query, {"$set": fields}, sort=spec, return_document=True)\<close>:
  the first matching document in sort order is updated in place and returned as updated.\<close>

definition coll_find_one_and_update ::
  "collection \<Rightarrow> pydict \<Rightarrow> pydict \<Rightarrow> (string \<times> int) list \<Rightarrow> pydict option \<times> collection" where
  "coll_find_one_and_update coll query flds spec =
     (case sort_key (\<lambda>i. sort_key_of spec (coll ! i))
             (filter (\<lambda>i. matches query (coll ! i)) [0..<length coll]) of
        [] \<Rightarrow> (None, coll)
      | i # _ \<Rightarrow> (Some (apply_set (coll ! i) flds), coll[i := apply_set (coll ! i) flds]))"

section \<open>The repository base class (async\_mongo\_repository.py)\<close>

text \<open>
  \<open>_generate_content_hash\<close>: the SHA-256 hex digest of the content, of \<open>str(content)\<close> when
  the content is no string. The digest function \<open>sha256\<close> and Python's \<open>str\<close> on values that
  are not strings are parameters of the model.
\<close>

definition str_of :: "(pyval \<Rightarrow> string) \<Rightarrow> pyval \<Rightarrow> string" where
  "str_of py_str v = (case v of PStr s \<Rightarrow> s | PObjectId s \<Rightarrow> s | _ \<Rightarrow> py_str v)"

definition generate_content_hash ::
  "(string \<Rightarrow> string) \<Rightarrow> (pyval \<Rightarrow> string) \<Rightarrow> pyval \<Rightarrow> string" where
  "generate_content_hash sha256 py_str content =
     sha256 (case content of PStr s \<Rightarrow> s | _ \<Rightarrow> py_str content)"

text \<open>\<open>_convert_object_ids\<close>: every ObjectId becomes its string, through dictionaries and
  lists.\<close>

fun convert_object_ids :: "pyval \<Rightarrow> pyval"
  and convert_items :: "pydict \<Rightarrow> pydict"
  and convert_elems :: "pyval list \<Rightarrow> pyval list" where
  "convert_object_ids (PObjectId s) = PStr s"
| "convert_object_ids (PDict d) = PDict (convert_items d)"
| "convert_object_ids (PList xs) = PList (convert_elems xs)"
| "convert_object_ids PNone = PNone"
| "convert_object_ids (PBool b) = PBool b"
| "convert_object_ids (PInt i) = PInt i"
| "convert_object_ids (PFloat r) = PFloat r"
| "convert_object_ids (PStr s) = PStr s"
| "convert_object_ids (PDatetime t) = PDatetime t"
| "convert_items [] = []"
| "convert_items ((k, v) # d) = (k, convert_object_ids v) # convert_items d"
| "convert_elems [] = []"
| "convert_elems (x # xs) = convert_object_ids x # convert_elems xs"

text \<open>\<open>_validate_object_id\<close>: \<open>ObjectId(obj_id)\<close> takes an ObjectId or a string of 24
  hexadecimal digits (kept in lower case); anything else raises, which becomes
  \<open>ValidationError\<close>. The one value treated differently from the library is \<open>None\<close>, for
  which \<open>ObjectId(None)\<close> generates a fresh id: no stored document has it, and the callers
  modelled here end as they do after the error (they find nothing, or catch the error).\<close>

definition is_hex_digit :: "char \<Rightarrow> bool" where
  "is_hex_digit c = (c \<in> set ''0123456789abcdefABCDEF'')"

definition ascii_lower :: "char \<Rightarrow> char" where
  "ascii_lower c =
     (let n = (of_char c :: nat) in if 65 \<le> n \<and> n \<le> 90 then char_of (n + 32) else c)"

definition validate_object_id :: "pyval \<Rightarrow> error + pyval" where
  "validate_object_id obj_id =
     (case obj_id of
        PObjectId s \<Rightarrow> Inr (PObjectId s)
      | PStr s \<Rightarrow>
          if length s = 24 \<and> list_all is_hex_digit s then Inr (PObjectId (map ascii_lower s))
          else Inl (ValidationError ''Invalid ObjectId'')
      | _ \<Rightarrow> Inl (ValidationError ''Invalid ObjectId''))"

text \<open>
  \<open>insert_one(document, validate=True)\<close>: sanitise, stamp \<open>created_at\<close> and \<open>updated_at\<close>,
  write \<open>content_hash\<close> when the document has a \<open>content\<close> key, insert; the result is the
  string of the new id.
\<close>

definition insert_one ::
  "(string \<Rightarrow> string) \<Rightarrow> (pyval \<Rightarrow> string) \<Rightarrow> collection \<Rightarrow> pyval \<Rightarrow> time \<Rightarrow> string
     \<Rightarrow> (error + pyval) \<times> collection" where
  "insert_one sha256 py_str coll document now oid =
     (case sanitize_input document of
        Inl e \<Rightarrow> (Inl e, coll)
      | Inr d0 \<Rightarrow>
          (let d1 = dict_update d0 [(''created_at'', PDatetime now), (''updated_at'', PDatetime now)];
               d2 = (case dict_get d1 ''content'' of
                       Some c \<Rightarrow>
                         dict_set d1 ''content_hash''
                           (PStr (generate_content_hash sha256 py_str c))
                     | None \<Rightarrow> d1)
           in case coll_insert_one coll d2 oid of
                (inserted_id, coll') \<Rightarrow> (Inr (PStr (str_of py_str inserted_id)), coll')))"

text \<open>\<open>find_one(query)\<close>: sanitise the query, find, convert ObjectIds.\<close>

definition find_one :: "collection \<Rightarrow> pyval \<Rightarrow> error + pydict option" where
  "find_one coll query =
     (case sanitize_input query of
        Inl e \<Rightarrow> Inl e
      | Inr q \<Rightarrow>
          (case coll_find_one coll q of
             None \<Rightarrow> Inr None
           | Some doc \<Rightarrow> if doc = [] then Inr None else Inr (Some (convert_items doc))))"

text \<open>
  \<open>update_one(query, update_data, upsert=False, validate=True)\<close>: sanitise the query and
  the update data, stamp \<open>updated_at\<close>, write \<open>content_hash\<close> when the update data has a
  \<open>content\<close> key, and pass \<open>{"$set": update_data}\<close> to the driver. The update data is
  the plain dictionary of fields to set. The method returns a Python \<open>bool\<close>.
\<close>

definition update_one ::
  "(string \<Rightarrow> string) \<Rightarrow> (pyval \<Rightarrow> string) \<Rightarrow> collection \<Rightarrow> pyval \<Rightarrow> pyval \<Rightarrow> time
     \<Rightarrow> (error + bool) \<times> collection" where
  "update_one sha256 py_str coll query update_data now =
     (case sanitize_input query of
        Inl e \<Rightarrow> (Inl e, coll)
      | Inr q \<Rightarrow>
          (case sanitize_input update_data of
             Inl e \<Rightarrow> (Inl e, coll)
           | Inr u0 \<Rightarrow>
               (let u1 = dict_set u0 ''updated_at'' (PDatetime now);
                    u2 = (case dict_get u1 ''content'' of
                            Some c \<Rightarrow>
                              dict_set u1 ''content_hash''
                                (PStr (generate_content_hash sha256 py_str c))
                          | None \<Rightarrow> u1)
                in case coll_update_one coll q u2 of
                     (modified, coll') \<Rightarrow> (Inr (modified > 0), coll'))))"

text \<open>Callers that read \<open>result.modified_count\<close> from what \<open>update_one\<close> returned read an
  attribute of a \<open>bool\<close>, which has none of that name: \<open>AttributeError\<close>.\<close>

definition modified_count :: "bool \<Rightarrow> error + nat" where
  "modified_count result = Inl AttributeError"

section \<open>The processing queue (processing\_queue\_repository.py)\<close>

text \<open>The task object the repository hands out; its \<open>id\<close> attribute is the field
  \<open>id'\<close> here.\<close>

record ProcessingTask =
  id' :: pyval
  task_type :: pyval
  priority :: pyval
  payload :: pyval
  status :: pyval
  created_at :: pyval
  scheduled_at :: pyval
  started_at :: pyval
  completed_at :: pyval
  worker_id :: pyval
  error_message :: pyval
  retry_count :: pyval
  max_retries :: pyval

text \<open>\<open>doc.get(k, default)\<close> and \<open>doc.get(k)\<close>.\<close>

definition get_default :: "pydict \<Rightarrow> string \<Rightarrow> pyval \<Rightarrow> pyval" where
  "get_default doc k dflt = (case dict_get doc k of None \<Rightarrow> dflt | Some v \<Rightarrow> v)"

text \<open>\<open>_document_to_task\<close>; \<open>doc["_id"]\<close> raises \<open>KeyError\<close> on a document without
  \<open>_id\<close>, and the constructor stores \<open>payload or {}\<close>.\<close>

definition document_to_task :: "pydict \<Rightarrow> error + ProcessingTask" where
  "document_to_task doc =
     (case dict_get doc ''_id'' of
        None \<Rightarrow> Inl (KeyError ''_id'')
      | Some i \<Rightarrow>
          Inr \<lparr>id' = i,
               task_type = get_default doc ''task_type'' PNone,
               priority = get_default doc ''priority'' (PInt 5),
               payload = (let p = get_default doc ''payload'' (PDict [])
                          in if truthy p then p else PDict []),
               status = get_default doc ''status'' (PStr ''pending''),
               created_at = get_default doc ''created_at'' PNone,
               scheduled_at = get_default doc ''scheduled_at'' PNone,
               started_at = get_default doc ''started_at'' PNone,
               completed_at = get_default doc ''completed_at'' PNone,
               worker_id = get_default doc ''worker_id'' PNone,
               error_message = get_default doc ''error_message'' PNone,
               retry_count = get_default doc ''retry_count'' (PInt 0),
               max_retries = get_default doc ''max_retries'' (PInt 3)\<rparr>)"

text \<open>\<open>_calculate_next_retry_delay(retry_count, base_delay=60)\<close>, as a \<open>timedelta\<close>; the
  retry count is a natural number (\<open>enqueue_task\<close> writes 0 and nothing decreases it).\<close>

definition calculate_next_retry_delay :: "nat \<Rightarrow> int \<Rightarrow> int" where
  "calculate_next_retry_delay retry_cnt base_delay =
     (let delay_seconds = base_delay * 2 ^ retry_cnt;
          delay_seconds = min delay_seconds 3600
      in seconds delay_seconds)"

text \<open>
  \<open>dequeue_next_task(task_type=None)\<close> goes to the driver directly
  (\<open>self.collection.find_one_and_update\<close>). A falsy \<open>task_type\<close> (\<open>None\<close> or the empty
  string) adds no filter. Any exception makes the method return \<open>None\<close>.
\<close>

definition dequeue_query :: "string option \<Rightarrow> time \<Rightarrow> pydict" where
  "dequeue_query ty now =
     (let query = [(''status'', PStr ''pending''),
                   (''scheduled_at'', PDict [(''$lte'', PDatetime now)])]
      in case ty of
           None \<Rightarrow> query
         | Some t \<Rightarrow> if t = [] then query else dict_set query ''task_type'' (PStr t))"

definition dequeue_update_data :: "time \<Rightarrow> pydict" where
  "dequeue_update_data now =
     [(''status'', PStr ''processing''),
      (''started_at'', PDatetime now),
      (''last_update'', PDatetime now)]"

definition dequeue_sort :: "(string \<times> int) list" where
  "dequeue_sort = [(''priority'', -1), (''created_at'', 1)]"

definition dequeue_next_task ::
  "collection \<Rightarrow> string option \<Rightarrow> time \<Rightarrow> ProcessingTask option \<times> collection" where
  "dequeue_next_task coll ty now =
     (case coll_find_one_and_update coll (dequeue_query ty now) (dequeue_update_data now)
             dequeue_sort of
        (None, coll') \<Rightarrow> (None, coll')
      | (Some doc, coll') \<Rightarrow>
          if doc = [] then (None, coll')
          else (case document_to_task doc of
                  Inl e \<Rightarrow> (None, coll')
                | Inr task \<Rightarrow> (Some task, coll')))"

text \<open>
  \<open>fail_task(task_id, error, retry=True)\<close>. The counters read from the document
  (\<open>retry_count\<close>, \<open>max_retries\<close>) are taken to be Python ints (a bool counts as one), as
  \<open>enqueue_task\<close> stores them; on a value that is no number the arithmetic raises, and so
  does the model on a float, with which Python would compute. Every exception is caught and
  the method returns \<open>False\<close>.
  \<open>fail_task_update_data\<close> is the dictionary the method builds; \<open>fail_task\<close> hands
  \<open>{"$set": update_data}\<close> to \<open>update_one\<close> and reads \<open>modified_count\<close> from its result.
\<close>

definition py_int :: "pyval \<Rightarrow> error + int" where
  "py_int v = (case v of PInt i \<Rightarrow> Inr i | PBool b \<Rightarrow> Inr (if b then 1 else 0) | _ \<Rightarrow> Inl TypeError)"

definition fail_task_update_data :: "string \<Rightarrow> bool \<Rightarrow> int \<Rightarrow> int \<Rightarrow> time \<Rightarrow> pydict" where
  "fail_task_update_data err retry retry_cnt max_retr now =
     (let update_data = [(''error_message'', PStr err),
                         (''last_update'', PDatetime now),
                         (''retry_count'', PInt (retry_cnt + 1))];
          should_retry = (retry \<and> retry_cnt < max_retr)
      in if should_retry
         then dict_update update_data
                [(''status'', PStr ''pending''),
                 (''scheduled_at'',
                    PDatetime (now + calculate_next_retry_delay (nat retry_cnt) 60)),
                 (''worker_id'', PNone),
                 (''started_at'', PNone)]
         else dict_update update_data
                [(''status'', PStr ''failed''),
                 (''failed_at'', PDatetime now)])"

definition fail_task ::
  "(string \<Rightarrow> string) \<Rightarrow> (pyval \<Rightarrow> string) \<Rightarrow> collection \<Rightarrow> pyval \<Rightarrow> string \<Rightarrow> bool \<Rightarrow> time
     \<Rightarrow> bool \<times> collection" where
  "fail_task sha256 py_str coll task_id err retry now =
     (case validate_object_id task_id of
        Inl e \<Rightarrow> (False, coll)
      | Inr validated_task_id \<Rightarrow>
          (case find_one coll (PDict [(''_id'', validated_task_id)]) of
             Inl e \<Rightarrow> (False, coll)
           | Inr None \<Rightarrow> (False, coll)
           | Inr (Some task_doc) \<Rightarrow>
               (case (py_int (get_default task_doc ''retry_count'' (PInt 0)),
                      py_int (get_default task_doc ''max_retries'' (PInt 3))) of
                  (Inr retry_cnt, Inr max_retr) \<Rightarrow>
                    (let update_data = fail_task_update_data err retry retry_cnt max_retr now
                     in case update_one sha256 py_str coll
                               (PDict [(''_id'', validated_task_id)])
                               (PDict [(''$set'', PDict update_data)]) now of
                          (Inl e, coll') \<Rightarrow> (False, coll')
                        | (Inr result, coll') \<Rightarrow>
                            (case modified_count result of
                               Inl e \<Rightarrow> (False, coll')
                             | Inr n \<Rightarrow> (n > 0, coll')))
                | _ \<Rightarrow> (False, coll))))"

subsection \<open>Notions used to state the queue's properties\<close>

text \<open>What the filter of \<open>dequeue_next_task\<close> selects, and the typed view of a task
  document: its priority is an integer and its creation time a datetime.\<close>

definition eligible :: "string option \<Rightarrow> time \<Rightarrow> pydict \<Rightarrow> bool" where
  "eligible ty now doc \<longleftrightarrow>
     field_value doc ''status'' = PStr ''pending'' \<and>
     (case field_value doc ''scheduled_at'' of PDatetime t \<Rightarrow> t \<le> now | _ \<Rightarrow> False) \<and>
     (case ty of
        None \<Rightarrow> True
      | Some t \<Rightarrow> t = [] \<or> field_value doc ''task_type'' = PStr t)"

definition priority_of :: "pydict \<Rightarrow> int" where
  "priority_of doc = (case field_value doc ''priority'' of PInt p \<Rightarrow> p | _ \<Rightarrow> 0)"

definition created_of :: "pydict \<Rightarrow> int" where
  "created_of doc = (case field_value doc ''created_at'' of PDatetime t \<Rightarrow> t | _ \<Rightarrow> 0)"

definition well_formed_task :: "pydict \<Rightarrow> bool" where
  "well_formed_task doc \<longleftrightarrow>
     dict_has doc ''_id'' \<and>
     (case field_value doc ''priority'' of PInt p \<Rightarrow> True | _ \<Rightarrow> False) \<and>
     (case field_value doc ''created_at'' of PDatetime t \<Rightarrow> True | _ \<Rightarrow> False)"

text \<open>The eligibility the specification words: pending, due, and every id listed in
  \<open>dependencies\<close> resolving to a task of the collection with status completed.\<close>

definition dependency_completed :: "collection \<Rightarrow> pyval \<Rightarrow> bool" where
  "dependency_completed coll dep =
     (case find (\<lambda>d. field_value d ''_id'' = dep) coll of
        None \<Rightarrow> False
      | Some d \<Rightarrow> field_value d ''status'' = PStr ''completed'')"

definition spec_eligible :: "collection \<Rightarrow> time \<Rightarrow> pydict \<Rightarrow> bool" where
  "spec_eligible coll now doc \<longleftrightarrow>
     field_value doc ''status'' = PStr ''pending'' \<and>
     (case field_value doc ''scheduled_at'' of PDatetime t \<Rightarrow> t \<le> now | _ \<Rightarrow> False) \<and>
     (case field_value doc ''dependencies'' of
        PList deps \<Rightarrow> list_all (dependency_completed coll) deps
      | _ \<Rightarrow> True)"

subsection \<open>Example queues\<close>

definition oid_a :: string where "oid_a = ''aaaaaaaaaaaaaaaaaaaaaaaa''"
definition oid_b :: string where "oid_b = ''bbbbbbbbbbbbbbbbbbbbbbbb''"
definition oid_c :: string where "oid_c = ''cccccccccccccccccccccccc''"

text \<open>A task document as \<open>enqueue_task\<close> and \<open>insert_one\<close> write it.\<close>

definition task_doc :: "string \<Rightarrow> int \<Rightarrow> time \<Rightarrow> string \<Rightarrow> pydict" where
  "task_doc oid prio created st =
     [(''_id'', PObjectId oid), (''task_type'', PStr ''index''), (''priority'', PInt prio),
      (''payload'', PDict []), (''status'', PStr st), (''created_at'', PDatetime created),
      (''scheduled_at'', PDatetime created), (''retry_count'', PInt 0),
      (''max_retries'', PInt 3), (''updated_at'', PDatetime created)]"

text \<open>Three pending tasks with priorities 3, 5, 5 created one millisecond apart.\<close>

definition scenario_queue :: collection where
  "scenario_queue =
     [task_doc oid_a 3 1000 ''pending'', task_doc oid_b 5 2000 ''pending'',
      task_doc oid_c 5 3000 ''pending'']"

text \<open>A pending task of priority 5 that lists a dependency on a task that is itself still
  pending, with priority 1.\<close>

definition dependent_queue :: collection where
  "dependent_queue =
     [task_doc oid_a 5 1000 ''pending'' @ [(''dependencies'', PList [PObjectId oid_b])],
      task_doc oid_b 1 1000 ''pending'']"

text \<open>Two pending tasks equal in priority and creation time, stored in either order.\<close>

definition tied_queue :: collection where
  "tied_queue = [task_doc oid_b 3 1000 ''pending'', task_doc oid_a 3 1000 ''pending'']"

definition tied_queue_rev :: collection where
  "tied_queue_rev = [task_doc oid_a 3 1000 ''pending'', task_doc oid_b 3 1000 ''pending'']"

text \<open>One task that a worker is processing, not yet retried, with three retries allowed.\<close>

definition processing_queue :: collection where
  "processing_queue = [task_doc oid_a 3 1000 ''processing'']"

section \<open>Alerts (alerts\_repository.py)\<close>

text \<open>The attributes of an \<open>Alert\<close> that \<open>create_alert\<close> reads. Any of them may be
  \<open>None\<close>; the attribute \<open>context\<close> is the field \<open>context'\<close>.\<close>

record Alert =
  alert_type :: pyval
  severity :: pyval
  title :: pyval
  message :: pyval
  site_id :: pyval
  source_component :: pyval
  context' :: pyval

definition SEVERITY_LEVELS :: "(string \<times> int) list" where
  "SEVERITY_LEVELS =
     [(''critical'', 5), (''high'', 4), (''medium'', 3), (''low'', 2), (''info'', 1)]"

text \<open>\<open>_calculate_alert_hash\<close>: the MD5 hex digest of the text
  \<open>f"{alert_type}:{site_id}:{context}"\<close>. The digest \<open>md5\<close> is a parameter, as is Python's
  \<open>str\<close> on values that are not strings (\<open>py_str\<close>).\<close>

definition calculate_alert_hash ::
  "(string \<Rightarrow> string) \<Rightarrow> (pyval \<Rightarrow> string) \<Rightarrow> pyval \<Rightarrow> pyval \<Rightarrow> pyval \<Rightarrow> string" where
  "calculate_alert_hash md5 py_str alert_ty site ctx =
     md5 (str_of py_str alert_ty @ '':'' @ str_of py_str site @ '':'' @ str_of py_str ctx)"

text \<open>\<open>_is_alert_suppressed\<close> asks the suppressions collection directly; any exception makes
  it answer \<open>False\<close>. The collection is the one that \<open>_setup_indexes\<close> assigns; on a
  repository built by the constructor alone \<open>suppressions_collection\<close> is \<open>None\<close>, the look-up
  raises, and the answer is that of an empty collection.\<close>

definition is_alert_suppressed :: "collection \<Rightarrow> pyval \<Rightarrow> time \<Rightarrow> bool" where
  "is_alert_suppressed suppressions alert_ty now =
     (coll_find_one suppressions
        [(''alert_type'', alert_ty),
         (''suppressed_until'', PDict [(''$gt'', PDatetime now)])] \<noteq> None)"

text \<open>
  \<open>create_alert(alert)\<close>. The result is the value returned (\<open>None\<close> when the type is
  suppressed, otherwise an id) or the exception raised, and the alerts collection. \<open>oid\<close>
  is the id the driver generates if a document is inserted. The look-up of the alert's site
  only logs a warning and is left out. The \<open>ValidationError\<close> of the three checks is
  pydantic's, which cannot be built from a message: the \<open>raise\<close> statement raises \<open>TypeError\<close>.
\<close>

definition create_alert ::
  "(string \<Rightarrow> string) \<Rightarrow> (string \<Rightarrow> string) \<Rightarrow> (pyval \<Rightarrow> string) \<Rightarrow> collection \<Rightarrow> collection
     \<Rightarrow> Alert \<Rightarrow> time \<Rightarrow> string \<Rightarrow> (error + pyval) \<times> collection" where
  "create_alert md5 sha256 py_str alerts suppressions alert now oid =
     (if \<not> truthy (alert_type alert)
      then (Inl TypeError, alerts)
      else if \<not> truthy (title alert)
      then (Inl TypeError, alerts)
      else if (case severity alert of
                 PStr s \<Rightarrow> s \<notin> set (map fst SEVERITY_LEVELS)
               | _ \<Rightarrow> True)
      then (Inl TypeError, alerts)
      else if is_alert_suppressed suppressions (alert_type alert) now
      then (Inr PNone, alerts)
      else
        (let alert_hash =
               calculate_alert_hash md5 py_str (alert_type alert) (site_id alert) (context' alert)
         in case find_one alerts
                   (PDict [(''alert_hash'', PStr alert_hash), (''status'', PStr ''active'')]) of
              Inl e \<Rightarrow> (Inl e, alerts)
            | Inr (Some existing_alert) \<Rightarrow>
                (case dict_get existing_alert ''_id'' of
                   None \<Rightarrow> (Inl (KeyError ''_id''), alerts)
                 | Some existing_id \<Rightarrow>
                     (case update_one sha256 py_str alerts
                             (PDict [(''_id'', existing_id)])
                             (PDict [(''$set'', PDict [(''last_seen'', PDatetime now)]),
                                     (''$inc'', PDict [(''occurrence_count'', PInt 1)])])
                             now of
                        (Inl e, alerts') \<Rightarrow> (Inl e, alerts')
                      | (Inr _, alerts') \<Rightarrow> (Inr existing_id, alerts')))
            | Inr None \<Rightarrow>
                (let alert_data =
                       [(''alert_type'', alert_type alert),
                        (''severity'', severity alert),
                        (''title'', title alert),
                        (''message'', message alert),
                        (''site_id'', site_id alert),
                        (''source_component'', source_component alert),
                        (''context'', context' alert),
                        (''status'', PStr ''active''),
                        (''alert_hash'', PStr alert_hash),
                        (''occurrence_count'', PInt 1),
                        (''notification_sent'', PBool False),
                        (''created_at'', PDatetime now),
                        (''last_seen'', PDatetime now)]
                 in insert_one sha256 py_str alerts (PDict alert_data) now oid)))"

subsection \<open>An example alert\<close>

definition timeout_alert :: Alert where
  "timeout_alert =
     \<lparr>alert_type = PStr ''crawl_failure'', severity = PStr ''high'',
      title = PStr ''Crawl failed'', message = PStr ''timeout'',
      site_id = PObjectId oid_c, source_component = PStr ''crawler'',
      context' = PDict [(''error_code'', PStr ''TIMEOUT'')]\<rparr>"

text \<open>The alerts collection after that alert was created once, at time 1000, in an empty
  collection, with the id \<open>oid_a\<close>.\<close>

definition alerts_after_first ::
  "(string \<Rightarrow> string) \<Rightarrow> (pyval \<Rightarrow> string) \<Rightarrow> collection" where
  "alerts_after_first md5 py_str =
     [[(''_id'', PObjectId oid_a),
       (''alert_type'', PStr ''crawl_failure''),
       (''severity'', PStr ''high''),
       (''title'', PStr ''Crawl failed''),
       (''message'', PStr ''timeout''),
       (''site_id'', PObjectId oid_c),
       (''source_component'', PStr ''crawler''),
       (''context'', PDict [(''error_code'', PStr ''TIMEOUT'')]),
       (''status'', PStr ''active''),
       (''alert_hash'',
          PStr (calculate_alert_hash md5 py_str (PStr ''crawl_failure'') (PObjectId oid_c)
                  (PDict [(''error_code'', PStr ''TIMEOUT'')]))),
       (''occurrence_count'', PInt 1),
       (''notification_sent'', PBool False),
       (''created_at'', PDatetime 1000),
       (''last_seen'', PDatetime 1000),
       (''updated_at'', PDatetime 1000)]]"

section \<open>Crawl sessions (crawl\_sessions\_repository.py)\<close>

text \<open>The counters of \<open>CrawlStats\<close> that \<open>complete_crawl_session\<close> reads.\<close>

record CrawlStats =
  pages_discovered :: int
  pages_crawled :: int
  pages_failed :: int
  bytes_downloaded :: int
  errors_count :: int

text \<open>\<open>d[k]\<close> on a dictionary raises \<open>KeyError\<close> for a missing key.\<close>

definition dict_item :: "pydict \<Rightarrow> string \<Rightarrow> error + pyval" where
  "dict_item d k = (case dict_get d k of None \<Rightarrow> Inl (KeyError k) | Some v \<Rightarrow> Inr v)"

text \<open>
  \<open>now - v\<close> for \<open>now = datetime.now(UTC)\<close>, a datetime with a time zone, and a value \<open>v\<close>
  read from the store. The client is built without \<open>tz_aware\<close>, so the driver decodes every
  stored date into a datetime without a time zone, and Python raises \<open>TypeError\<close> when such a
  datetime is subtracted from one with a time zone; for a stored value of any other type the
  subtraction raises \<open>TypeError\<close> as well. The difference, were there one, would be a number of
  seconds.
\<close>

definition aware_minus_stored :: "time \<Rightarrow> pyval \<Rightarrow> error + rat" where
  "aware_minus_stored now v =
     (case v of
        PDatetime naive \<Rightarrow> Inl TypeError
      | _ \<Rightarrow> Inl TypeError)"

text \<open>
  \<open>complete_crawl_session(session_id, final_stats)\<close> works on the sessions collection and,
  through the sites repository, on the sites collection. The duration is
  \<open>(now - session["started_at"]).total_seconds()\<close>, computed before the update is built.
  Every exception (the \<open>ResourceNotFoundError\<close> for a missing session too) is caught and
  the method returns \<open>False\<close>. The result is the value returned and the two collections.
\<close>

definition complete_update_data :: "pyval \<Rightarrow> CrawlStats \<Rightarrow> rat \<Rightarrow> time \<Rightarrow> pydict" where
  "complete_update_data started final_stats duration now =
     [(''status'', PStr ''completed''),
      (''completed_at'', PDatetime now),
      (''stats'',
         PDict [(''pages_discovered'', PInt (pages_discovered final_stats)),
                (''pages_crawled'', PInt (pages_crawled final_stats)),
                (''pages_failed'', PInt (pages_failed final_stats)),
                (''bytes_downloaded'', PInt (bytes_downloaded final_stats)),
                (''errors_count'', PInt (errors_count final_stats)),
                (''start_time'', started),
                (''end_time'', PDatetime now),
                (''duration_seconds'', PFloat duration)]),
      (''last_update'', PDatetime now)]"

definition complete_crawl_session ::
  "(string \<Rightarrow> string) \<Rightarrow> (pyval \<Rightarrow> string) \<Rightarrow> collection \<Rightarrow> collection \<Rightarrow> pyval \<Rightarrow> CrawlStats
     \<Rightarrow> time \<Rightarrow> bool \<times> collection \<times> collection" where
  "complete_crawl_session sha256 py_str sessions sites session_id final_stats now =
     (case validate_object_id session_id of
        Inl e \<Rightarrow> (False, sessions, sites)
      | Inr validated_session_id \<Rightarrow>
          (case find_one sessions (PDict [(''_id'', validated_session_id)]) of
             Inl e \<Rightarrow> (False, sessions, sites)
           | Inr None \<Rightarrow> (False, sessions, sites)
           | Inr (Some session) \<Rightarrow>
               (case dict_item session ''started_at'' of
                  Inl e \<Rightarrow> (False, sessions, sites)
                | Inr started \<Rightarrow>
                    (case aware_minus_stored now started of
                       Inl e \<Rightarrow> (False, sessions, sites)
                     | Inr duration \<Rightarrow>
                         (let update_data = complete_update_data started final_stats duration now
                          in case update_one sha256 py_str sessions
                                    (PDict [(''_id'', validated_session_id)])
                                    (PDict [(''$set'', PDict update_data)]) now of
                               (Inl e, sessions') \<Rightarrow> (False, sessions', sites)
                             | (Inr result, sessions') \<Rightarrow>
                                 (case modified_count result of
                                    Inl e \<Rightarrow> (False, sessions', sites)
                                  | Inr n \<Rightarrow>
                                      if n > 0
                                      then (case dict_item session ''site_id'' of
                                              Inl e \<Rightarrow> (False, sessions', sites)
                                            | Inr site \<Rightarrow>
                                                (case update_one sha256 py_str sites
                                                        (PDict [(''_id'', site)])
                                                        (PDict [(''$set'',
                                                           PDict [(''monitoring.last_crawl_time'',
                                                                   PDatetime now)])])
                                                        now of
                                                   (Inl e, sites') \<Rightarrow> (False, sessions', sites')
                                                 | (Inr _, sites') \<Rightarrow> (True, sessions', sites')))
                                      else (False, sessions', sites)))))))"

subsection \<open>An example session\<close>

text \<open>A running session of site \<open>oid_c\<close>, started at time 1000, and its site, last crawled
  at time 500.\<close>

definition running_sessions :: collection where
  "running_sessions =
     [[(''_id'', PObjectId oid_a), (''site_id'', PObjectId oid_c), (''status'', PStr ''running''),
       (''stats'', PDict [(''pages_discovered'', PInt 0), (''pages_crawled'', PInt 0),
                          (''pages_failed'', PInt 0), (''bytes_downloaded'', PInt 0),
                          (''errors_count'', PInt 0), (''start_time'', PDatetime 1000)]),
       (''started_at'', PDatetime 1000), (''last_update'', PDatetime 1000),
       (''created_at'', PDatetime 1000), (''updated_at'', PDatetime 1000)]]"

definition example_sites :: collection where
  "example_sites =
     [[(''_id'', PObjectId oid_c), (''name'', PStr ''Example''),
       (''base_url'', PStr ''https://example.com/''),
       (''monitoring'', PDict [(''active'', PBool True), (''last_crawl_time'', PDatetime 500)]),
       (''created_at'', PDatetime 100), (''updated_at'', PDatetime 100)]]"

definition final_stats_example :: CrawlStats where
  "final_stats_example =
     \<lparr>pages_discovered = 200, pages_crawled = 190, pages_failed = 5,
      bytes_downloaded = 4096, errors_count = 5\<rparr>"

section \<open>Pages (pages\_repository.py)\<close>

subsection \<open>The standard library's \<open>urlparse\<close>\<close>

text \<open>
  \<open>_normalize_url\<close> calls \<open>urllib.parse.urlparse\<close>. Its algorithm is written out here for
  strings of one-byte characters: leading control characters and spaces are stripped, tabs
  and line breaks removed; the scheme is the text before the first colon when that text
  starts with a letter and consists of letters, digits, \<open>+\<close>, \<open>-\<close> and \<open>.\<close> only, and it is
  lower-cased; after \<open>//\<close> the netloc runs up to the first \<open>/\<close>, \<open>?\<close> or \<open>#\<close>; the fragment is
  what follows the first \<open>#\<close> of the rest, the query what follows the first \<open>?\<close> before it;
  for the schemes that use parameters, the parameters are what follows the first \<open>;\<close> of the
  last path segment. A netloc with an unmatched square bracket raises \<open>ValueError\<close>; the
  further validation of a bracketed host is not modelled.
\<close>

record ParseResult =
  scheme :: string
  netloc :: string
  path :: string
  params :: string
  query :: string
  fragment :: string

definition is_ascii_alpha :: "char \<Rightarrow> bool" where
  "is_ascii_alpha c =
     (let n = (of_char c :: nat) in (65 \<le> n \<and> n \<le> 90) \<or> (97 \<le> n \<and> n \<le> 122))"

definition is_scheme_char :: "char \<Rightarrow> bool" where
  "is_scheme_char c =
     (let n = (of_char c :: nat)
      in is_ascii_alpha c \<or> (48 \<le> n \<and> n \<le> 57) \<or> c \<in> set ''+-.'')"

definition is_c0_control_or_space :: "char \<Rightarrow> bool" where
  "is_c0_control_or_space c = ((of_char c :: nat) \<le> 32)"

definition is_unsafe_url_byte :: "char \<Rightarrow> bool" where
  "is_unsafe_url_byte c = ((of_char c :: nat) \<in> {9, 10, 13})"

text \<open>\<open>s.split(c, 1)\<close> when \<open>c\<close> occurs in \<open>s\<close>: the text before and after its first
  occurrence.\<close>

definition split_first :: "char \<Rightarrow> string \<Rightarrow> string \<times> string" where
  "split_first c s = (takeWhile (\<lambda>x. x \<noteq> c) s, tl (dropWhile (\<lambda>x. x \<noteq> c) s))"

definition splitnetloc :: "string \<Rightarrow> string \<times> string" where
  "splitnetloc url =
     (takeWhile (\<lambda>c. c \<notin> set ''/?#'') (drop 2 url),
      dropWhile (\<lambda>c. c \<notin> set ''/?#'') (drop 2 url))"

text \<open>The clean-up of the text before it is split, the test for a scheme, and the split
  of what follows the scheme.\<close>

definition strip_url :: "string \<Rightarrow> string" where
  "strip_url url = filter (\<lambda>c. \<not> is_unsafe_url_byte c) (dropWhile is_c0_control_or_space url)"

definition after_scheme :: "string \<Rightarrow> string \<Rightarrow> error + ParseResult" where
  "after_scheme sch url2 =
     (let has_netloc = (take 2 url2 = ''//'');
          loc = (if has_netloc then fst (splitnetloc url2) else []);
          url3 = (if has_netloc then snd (splitnetloc url2) else url2)
      in if (CHR ''['' \<in> set loc \<and> CHR '']'' \<notin> set loc) \<or>
            (CHR '']'' \<in> set loc \<and> CHR ''['' \<notin> set loc)
         then Inl (ValueError ''Invalid IPv6 URL'')
         else
           (let frag = (if CHR ''#'' \<in> set url3 then snd (split_first CHR ''#'' url3) else []);
                url4 = (if CHR ''#'' \<in> set url3 then fst (split_first CHR ''#'' url3) else url3);
                qry = (if CHR ''?'' \<in> set url4 then snd (split_first CHR ''?'' url4) else []);
                url5 = (if CHR ''?'' \<in> set url4 then fst (split_first CHR ''?'' url4) else url4)
            in Inr \<lparr>scheme = sch, netloc = loc, path = url5, params = [], query = qry,
                     fragment = frag\<rparr>))"

definition has_scheme :: "string \<Rightarrow> bool" where
  "has_scheme url1 \<longleftrightarrow>
     CHR '':'' \<in> set url1 \<and> takeWhile (\<lambda>c. c \<noteq> CHR '':'') url1 \<noteq> [] \<and>
     is_ascii_alpha (hd url1) \<and> list_all is_scheme_char (takeWhile (\<lambda>c. c \<noteq> CHR '':'') url1)"

definition urlsplit_stripped :: "string \<Rightarrow> error + ParseResult" where
  "urlsplit_stripped url1 =
     (if has_scheme url1
      then after_scheme (map ascii_lower (takeWhile (\<lambda>c. c \<noteq> CHR '':'') url1))
             (tl (dropWhile (\<lambda>c. c \<noteq> CHR '':'') url1))
      else after_scheme [] url1)"

definition urlsplit :: "string \<Rightarrow> error + ParseResult" where
  "urlsplit url = urlsplit_stripped (strip_url url)"

definition uses_params :: "string list" where
  "uses_params =
     ['''', ''ftp'', ''hdl'', ''prospero'', ''http'', ''imap'', ''https'', ''shttp'', ''rtsp'',
      ''rtspu'', ''sip'', ''sips'', ''mms'', ''sftp'', ''tel'']"

text \<open>\<open>_splitparams\<close>: the first \<open>;\<close> at or after the last \<open>/\<close> of the path, or the first
  \<open>;\<close> of a path without \<open>/\<close>.\<close>

definition last_segment_start :: "string \<Rightarrow> nat" where
  "last_segment_start url =
     (if CHR ''/'' \<in> set url
      then length url - Suc (length (takeWhile (\<lambda>c. c \<noteq> CHR ''/'') (rev url)))
      else 0)"

definition splitparams :: "string \<Rightarrow> string \<times> string" where
  "splitparams url =
     (let k = last_segment_start url; seg = drop k url
      in if CHR '';'' \<in> set seg
         then (take k url @ fst (split_first CHR '';'' seg), snd (split_first CHR '';'' seg))
         else (url, []))"

definition urlparse :: "string \<Rightarrow> error + ParseResult" where
  "urlparse url =
     (case urlsplit url of
        Inl e \<Rightarrow> Inl e
      | Inr r \<Rightarrow>
          if scheme r \<in> set uses_params \<and> CHR '';'' \<in> set (path r)
          then Inr (r\<lparr>path := fst (splitparams (path r)), params := snd (splitparams (path r))\<rparr>)
          else Inr r)"

subsection \<open>URL normalisation\<close>

definition rstrip_slash :: "string \<Rightarrow> string" where
  "rstrip_slash s = rev (dropWhile (\<lambda>c. c = CHR ''/'') (rev s))"

definition normalize_url :: "string \<Rightarrow> error + string" where
  "normalize_url url =
     (case urlparse url of
        Inl e \<Rightarrow> Inl e
      | Inr parsed \<Rightarrow>
          (let normalized = scheme parsed @ ''://'' @ netloc parsed @ path parsed;
               normalized = rstrip_slash normalized;
               normalized = (if query parsed \<noteq> [] then normalized @ ''?'' @ query parsed
                             else normalized)
           in Inr (rstrip_slash normalized)))"

subsection \<open>The sites repository's look-up (sites\_repository.py)\<close>

text \<open>\<open>get_crawl_configuration(site_id)\<close>: the projection of the site's document, or
  \<open>None\<close> when there is no such site or anything raises.\<close>

definition get_crawl_configuration :: "collection \<Rightarrow> pyval \<Rightarrow> pydict option" where
  "get_crawl_configuration sites site =
     (case validate_object_id site of
        Inl e \<Rightarrow> None
      | Inr validated_site_id \<Rightarrow>
          (case find_one sites (PDict [(''_id'', validated_site_id)]) of
             Inl e \<Rightarrow> None
           | Inr None \<Rightarrow> None
           | Inr (Some doc) \<Rightarrow>
               (case (dict_get doc ''_id'', dict_get doc ''name'', dict_get doc ''base_url'') of
                  (Some i, Some n, Some b) \<Rightarrow>
                    Some [(''site_id'', i),
                          (''name'', n),
                          (''base_url'', b),
                          (''crawl_patterns'', get_default doc ''crawl_patterns'' (PDict [])),
                          (''politeness'', get_default doc ''politeness'' (PDict [])),
                          (''monitoring'', get_default doc ''monitoring'' (PDict [])),
                          (''health_status'', get_default doc ''health_status'' (PStr ''unknown''))]
                | _ \<Rightarrow> None)))"

subsection \<open>Creating a page and replacing its content\<close>

record PageCreate =
  site_id :: pyval
  url :: string
  title :: pyval
  content :: pyval
  author :: pyval
  published_date :: pyval

text \<open>\<open>len(x)\<close>: defined on strings, lists and dictionaries.\<close>

definition py_len :: "pyval \<Rightarrow> error + int" where
  "py_len v =
     (case v of
        PStr s \<Rightarrow> Inr (int (length s))
      | PList xs \<Rightarrow> Inr (int (length xs))
      | PDict d \<Rightarrow> Inr (int (length d))
      | _ \<Rightarrow> Inl TypeError)"

text \<open>
  \<open>create_page(page_data)\<close> reads the sites collection and works on the pages collection;
  every exception is raised again. The result is the id returned or the exception, and the
  pages collection. \<open>oid\<close> is the id the driver generates if a document is inserted.
\<close>

definition create_page ::
  "(string \<Rightarrow> string) \<Rightarrow> (pyval \<Rightarrow> string) \<Rightarrow> collection \<Rightarrow> collection \<Rightarrow> PageCreate \<Rightarrow> time
     \<Rightarrow> string \<Rightarrow> (error + pyval) \<times> collection" where
  "create_page sha256 py_str sites pages page_data now oid =
     (case get_crawl_configuration sites (site_id page_data) of
        None \<Rightarrow> (Inl (PydanticCustomError ''site_not_found''), pages)
      | Some site_config \<Rightarrow>
          (case normalize_url (url page_data) of
             Inl e \<Rightarrow> (Inl e, pages)
           | Inr normalized_url \<Rightarrow>
               (case find_one pages
                       (PDict [(''site_id'', site_id page_data),
                               (''url'', PStr normalized_url)]) of
                  Inl e \<Rightarrow> (Inl e, pages)
                | Inr (Some existing_page) \<Rightarrow> (Inl DuplicateResourceError, pages)
                | Inr None \<Rightarrow>
                    (case (if truthy (content page_data) then py_len (content page_data)
                           else Inr 0) of
                       Inl e \<Rightarrow> (Inl e, pages)
                     | Inr content_length \<Rightarrow>
                         (let content_hash =
                                (if truthy (content page_data)
                                 then PStr (generate_content_hash sha256 py_str
                                              (content page_data))
                                 else PNone);
                              page_doc =
                                [(''site_id'', site_id page_data),
                                 (''url'', PStr normalized_url),
                                 (''title'', title page_data),
                                 (''content'', content page_data),
                                 (''content_hash'', content_hash),
                                 (''author'', author page_data),
                                 (''published_date'', published_date page_data),
                                 (''processing_status'', PStr ''pending''),
                                 (''content_length'', PInt content_length),
                                 (''created_at'', PDatetime now),
                                 (''updated_at'', PDatetime now),
                                 (''last_modified'', PDatetime now)]
                          in insert_one sha256 py_str pages (PDict page_doc) now oid)))))"

text \<open>\<open>update_page_content(page_id, content, content_hash)\<close>, with the content and the
  hash strings as annotated; every exception is caught and the method returns \<open>False\<close>.\<close>

definition update_page_content ::
  "(string \<Rightarrow> string) \<Rightarrow> (pyval \<Rightarrow> string) \<Rightarrow> collection \<Rightarrow> pyval \<Rightarrow> string \<Rightarrow> string \<Rightarrow> time
     \<Rightarrow> bool \<times> collection" where
  "update_page_content sha256 py_str pages page_id new_content new_hash now =
     (case validate_object_id page_id of
        Inl e \<Rightarrow> (False, pages)
      | Inr validated_page_id \<Rightarrow>
          (let update_data =
                 [(''content'', PStr new_content),
                  (''content_hash'', PStr new_hash),
                  (''content_length'', PInt (int (length new_content))),
                  (''updated_at'', PDatetime now),
                  (''last_modified'', PDatetime now),
                  (''processing_status'', PStr ''pending'')]
           in case update_one sha256 py_str pages
                     (PDict [(''_id'', validated_page_id)])
                     (PDict [(''$set'', PDict update_data)]) now of
                (Inl e, pages') \<Rightarrow> (False, pages')
              | (Inr result, pages') \<Rightarrow>
                  (case modified_count result of
                     Inl e \<Rightarrow> (False, pages')
                   | Inr n \<Rightarrow> (n > 0, pages'))))"

subsection \<open>Notions used to state the pages' properties\<close>

text \<open>No two pages agree on both the stored \<open>site_id\<close> value and \<open>url\<close>.\<close>

definition page_key :: "pydict \<Rightarrow> pyval \<times> pyval" where
  "page_key doc = (field_value doc ''site_id'', field_value doc ''url'')"

definition unique_pages :: "collection \<Rightarrow> bool" where
  "unique_pages pages = distinct (map page_key pages)"

subsection \<open>Example pages\<close>

definition example_page_create :: "string \<Rightarrow> PageCreate" where
  "example_page_create u =
     \<lparr>site_id = PObjectId oid_c, url = u, title = PStr ''Article'',
      content = PStr ''old text'', author = PNone, published_date = PNone\<rparr>"

text \<open>The same page data with the site given by the 24-character string of its id, the form
  in which \<open>insert_one\<close> and \<open>find_one\<close> hand ids back.\<close>

definition example_page_create_str :: "string \<Rightarrow> PageCreate" where
  "example_page_create_str u =
     \<lparr>site_id = PStr oid_c, url = u, title = PStr ''Article'',
      content = PStr ''old text'', author = PNone, published_date = PNone\<rparr>"

text \<open>The pages collection after \<open>create_page\<close> stored \<open>https://example.com/article\<close> for the
  example site at time 1000 with the id \<open>oid_a\<close>.\<close>

definition example_pages :: "(string \<Rightarrow> string) \<Rightarrow> collection" where
  "example_pages sha256 =
     [[(''_id'', PObjectId oid_a),
       (''site_id'', PObjectId oid_c),
       (''url'', PStr ''https://example.com/article''),
       (''title'', PStr ''Article''),
       (''content'', PStr ''old text''),
       (''content_hash'', PStr (sha256 ''old text'')),
       (''author'', PNone),
       (''published_date'', PNone),
       (''processing_status'', PStr ''pending''),
       (''content_length'', PInt 8),
       (''created_at'', PDatetime 1000),
       (''updated_at'', PDatetime 1000),
       (''last_modified'', PDatetime 1000)]]"

section \<open>Content changes (content\_changes\_repository.py)\<close>

text \<open>
  \<open>_determine_change_priority(change_type, context)\<close>. \<open>context.get(k, False)\<close> is tested for
  truth; \<open>content_change_ratio\<close> is compared with the float constants \<open>0.5\<close> and \<open>0.1\<close>, whose
  exact values are \<open>1/2\<close> and \<open>3602879701896397 / 2^55\<close>. A ratio that is no number (no int,
  float or bool) makes the comparison raise \<open>TypeError\<close>.
\<close>

definition float_0_5 :: rat where
  "float_0_5 = 1 / 2"

definition float_0_1 :: rat where
  "float_0_1 = 3602879701896397 / 36028797018963968"

definition py_number :: "pyval \<Rightarrow> error + rat" where
  "py_number v =
     (case v of
        PInt i \<Rightarrow> Inr (of_int i)
      | PFloat r \<Rightarrow> Inr r
      | PBool b \<Rightarrow> Inr (if b then 1 else 0)
      | _ \<Rightarrow> Inl TypeError)"

definition determine_change_priority :: "pyval \<Rightarrow> pyval \<Rightarrow> error + string" where
  "determine_change_priority change_ty ctx =
     (let ctx = (if truthy ctx then ctx else PDict [])
      in if change_ty = PStr ''deleted'' then Inr ''high''
         else if change_ty = PStr ''new''
         then (case ctx of
                 PDict d \<Rightarrow>
                   if truthy (get_default d ''author_known'' (PBool False)) \<or>
                      truthy (get_default d ''philosophical_content'' (PBool False))
                   then Inr ''high'' else Inr ''medium''
               | _ \<Rightarrow> Inl AttributeError)
         else if change_ty = PStr ''modified''
         then (case ctx of
                 PDict d \<Rightarrow>
                   (case py_number (get_default d ''content_change_ratio'' (PInt 0)) of
                      Inl e \<Rightarrow> Inl e
                    | Inr content_change_ratio \<Rightarrow>
                        if content_change_ratio > float_0_5 then Inr ''high''
                        else if content_change_ratio > float_0_1 then Inr ''medium''
                        else Inr ''low'')
               | _ \<Rightarrow> Inl AttributeError)
         else Inr ''medium'')"

text \<open>
  A \<open>ContentChange\<close> object. The constructor takes \<open>priority\<close> and \<open>context\<close> among its keyword
  arguments: \<open>kwargs.get('priority', 'medium')\<close> and \<open>kwargs.get('context', {})\<close>. The
  attribute \<open>context\<close> is the field \<open>context'\<close>.
\<close>

record ContentChange =
  page_id :: pyval
  change_type :: pyval
  site_id :: pyval
  url :: pyval
  title :: pyval
  previous_hash :: pyval
  new_hash :: pyval
  priority :: pyval
  context' :: pyval

definition ContentChange_init ::
  "pyval \<Rightarrow> pyval \<Rightarrow> pyval \<Rightarrow> pydict \<Rightarrow> ContentChange" where
  "ContentChange_init page change_ty site kwargs =
     \<lparr>page_id = page, change_type = change_ty, site_id = site,
      url = get_default kwargs ''url'' PNone,
      title = get_default kwargs ''title'' PNone,
      previous_hash = get_default kwargs ''previous_hash'' PNone,
      new_hash = get_default kwargs ''new_hash'' PNone,
      priority = get_default kwargs ''priority'' (PStr ''medium''),
      context' = get_default kwargs ''context'' (PDict [])\<rparr>"

definition CHANGE_TYPES :: "string list" where
  "CHANGE_TYPES = [''new'', ''modified'', ''deleted'']"

text \<open>
  \<open>record_content_change(change)\<close> reads the pages collection and inserts into the changes
  collection; every exception is raised again. The priority is derived only
  \<open>if not change.priority\<close>. The result is the id returned or the exception, and the
  changes collection.
\<close>

definition record_content_change ::
  "(string \<Rightarrow> string) \<Rightarrow> (pyval \<Rightarrow> string) \<Rightarrow> collection \<Rightarrow> collection \<Rightarrow> ContentChange
     \<Rightarrow> time \<Rightarrow> string \<Rightarrow> (error + pyval) \<times> collection" where
  "record_content_change sha256 py_str pages changes change now oid =
     (if \<not> truthy (page_id change)
      then (Inl (PydanticCustomError ''missing_page_id''), changes)
      else if \<not> truthy (change_type change) \<or>
              (case change_type change of PStr s \<Rightarrow> s \<notin> set CHANGE_TYPES | _ \<Rightarrow> True)
      then (Inl (PydanticCustomError ''invalid_change_type''), changes)
      else if \<not> truthy (site_id change)
      then (Inl (PydanticCustomError ''missing_site_id''), changes)
      else
        (case (if change_type change \<in> {PStr ''new'', PStr ''modified''}
               then (case find_one pages (PDict [(''_id'', page_id change)]) of
                       Inl e \<Rightarrow> Inl e
                     | Inr None \<Rightarrow> Inl (PydanticCustomError ''missing_page_id'')
                     | Inr (Some page) \<Rightarrow>
                         Inr (change\<lparr>url := if \<not> truthy (url change)
                                            then get_default page ''url'' PNone
                                            else url change,
                                     title := if \<not> truthy (title change)
                                              then get_default page ''title'' PNone
                                              else title change\<rparr>))
               else Inr change) of
           Inl e \<Rightarrow> (Inl e, changes)
         | Inr change1 \<Rightarrow>
             (case (if \<not> truthy (priority change1)
                    then map_sum (\<lambda>e. e) PStr
                           (determine_change_priority (change_type change1) (context' change1))
                    else Inr (priority change1)) of
                Inl e \<Rightarrow> (Inl e, changes)
              | Inr prio \<Rightarrow>
                  (let change_data =
                         [(''page_id'', page_id change1),
                          (''change_type'', change_type change1),
                          (''site_id'', site_id change1),
                          (''url'', url change1),
                          (''title'', title change1),
                          (''previous_hash'', previous_hash change1),
                          (''new_hash'', new_hash change1),
                          (''priority'', prio),
                          (''notification_sent'', PBool False),
                          (''detected_at'', PDatetime now),
                          (''context'', context' change1)]
                   in insert_one sha256 py_str changes (PDict change_data) now oid))))"

subsection \<open>Notions used to state the properties of content changes\<close>

text \<open>The priority of the change stored last.\<close>

definition stored_priority :: "collection \<Rightarrow> pyval" where
  "stored_priority changes = (if changes = [] then PNone else field_value (last changes) ''priority'')"

subsection \<open>Example changes\<close>

text \<open>The floats \<open>0.6\<close>, \<open>0.2\<close> and \<open>0.05\<close>, by their exact values.\<close>

definition float_0_6 :: rat where
  "float_0_6 = 5404319552844595 / 9007199254740992"

definition float_0_2 :: rat where
  "float_0_2 = 3602879701896397 / 18014398509481984"

definition float_0_05 :: rat where
  "float_0_05 = 3602879701896397 / 72057594037927936"

text \<open>A modification of a site's page by the ratio \<open>r\<close>, built by the constructor with the
  further keyword arguments \<open>extra\<close>.\<close>

definition modified_change :: "rat \<Rightarrow> pydict \<Rightarrow> ContentChange" where
  "modified_change r extra =
     ContentChange_init (PObjectId oid_a) (PStr ''modified'') (PObjectId oid_c)
       ([(''context'', PDict [(''content_change_ratio'', PFloat r)])] @ extra)"

section \<open>Retention (retention\_policy\_manager.py)\<close>

record RetentionPolicy =
  collection_name :: string
  ttl_field :: string
  retention_days :: int
  archive_enabled :: bool
  archive_after_days :: "int option"
  compression_enabled :: bool

text \<open>The default policies of the manager.\<close>

definition default_retention_policies :: "(string \<times> RetentionPolicy) list" where
  "default_retention_policies =
     [(''content_changes'',
       \<lparr>collection_name = ''content_changes'', ttl_field = ''detected_at'',
        retention_days = 365, archive_enabled = False, archive_after_days = None,
        compression_enabled = True\<rparr>),
      (''crawl_sessions'',
       \<lparr>collection_name = ''crawl_sessions'', ttl_field = ''start_time'',
        retention_days = 90, archive_enabled = True, archive_after_days = Some 90,
        compression_enabled = True\<rparr>),
      (''alerts'',
       \<lparr>collection_name = ''alerts'', ttl_field = ''created_at'',
        retention_days = 180, archive_enabled = False, archive_after_days = None,
        compression_enabled = True\<rparr>),
      (''processing_queue'',
       \<lparr>collection_name = ''processing_queue'', ttl_field = ''created_at'',
        retention_days = 30, archive_enabled = False, archive_after_days = None,
        compression_enabled = True\<rparr>)]"

text \<open>
  The manager: its policies, whether an S3 client and a bucket are configured, and the
  dry-run flag. The object store is seen through \<open>put_ok\<close>, which tells for the \<open>k\<close>-th batch
  of a run whether \<open>put_object\<close> succeeds; \<open>_archive_batch_to_s3\<close> returns \<open>True\<close> in a dry run
  and when \<open>put_object\<close> succeeds, and \<open>False\<close> when anything raises. The objects uploaded are
  collected as pairs of key and batch.
\<close>

record RetentionPolicyManager =
  retention_policies :: "(string \<times> RetentionPolicy) list"
  s3_configured :: bool
  dry_run :: bool

definition days :: "int \<Rightarrow> int" where
  "days n = seconds (n * 86400)"

definition batch_size :: nat where
  "batch_size = 1000"

text \<open>\<open>_generate_archive_key\<close>; \<open>strftime\<close> stands for the formatting of the clock reading
  by \<open>"%Y%m%d_%H%M%S"\<close>.\<close>

definition generate_archive_key ::
  "(time \<Rightarrow> string) \<Rightarrow> (pyval \<Rightarrow> string) \<Rightarrow> string \<Rightarrow> time \<Rightarrow> pyval \<Rightarrow> pyval \<Rightarrow> string" where
  "generate_archive_key strftime py_str name now first_id last_id =
     ''archives/'' @ name @ ''/'' @ strftime now @ ''_'' @ str_of py_str first_id @ ''_'' @
     str_of py_str last_id @ ''.json.gz''"

text \<open>\<open>[doc['_id'] for doc in batch]\<close>: \<open>KeyError\<close> on a document without \<open>_id\<close>.\<close>

fun doc_ids :: "pydict list \<Rightarrow> error + pyval list" where
  "doc_ids [] = Inr []"
| "doc_ids (doc # rest) =
     (case dict_item doc ''_id'' of
        Inl e \<Rightarrow> Inl e
      | Inr i \<Rightarrow> (case doc_ids rest of Inl e \<Rightarrow> Inl e | Inr is \<Rightarrow> Inr (i # is)))"

record ArchiveResult =
  archived :: nat
  status' :: string

text \<open>
  The loop of \<open>archive_old_documents\<close> over the batches that \<open>_get_batches\<close> yields: each
  batch is \<open>find(query).skip(skip).limit(batch_size)\<close> on the collection as it is then, and
  \<open>skip\<close> grows by \<open>batch_size\<close> after every batch. For each batch the key is generated
  from the first and the last document, the batch is uploaded, and after a successful upload
  outside a dry run its documents are deleted by \<open>{"_id": {"$in": doc_ids}}\<close>; a failed
  upload ends the loop. The state is the collection, \<open>skip\<close>, the number \<open>k\<close> of the batch,
  the count archived and the objects uploaded; the result says whether the loop ended without
  an exception.
\<close>

function archive_batches ::
  "(time \<Rightarrow> string) \<Rightarrow> (pyval \<Rightarrow> string) \<Rightarrow> (nat \<Rightarrow> time) \<Rightarrow> (nat \<Rightarrow> bool) \<Rightarrow> bool \<Rightarrow> string
     \<Rightarrow> pydict \<Rightarrow> collection \<Rightarrow> nat \<Rightarrow> nat \<Rightarrow> nat \<Rightarrow> (string \<times> pydict list) list
     \<Rightarrow> bool \<times> nat \<times> collection \<times> (string \<times> pydict list) list" where
  "archive_batches strftime py_str clock put_ok dry name qry coll skip k count uploads =
     (let batch = coll_find_skip_limit coll qry skip batch_size
      in if batch = [] then (True, count, coll, uploads)
         else
           (case dict_item (hd batch) ''_id'' of
              Inl e \<Rightarrow> (False, count, coll, uploads)
            | Inr first_id \<Rightarrow>
                (case dict_item (last batch) ''_id'' of
                   Inl e \<Rightarrow> (False, count, coll, uploads)
                 | Inr last_id \<Rightarrow>
                     (let archive_key =
                            generate_archive_key strftime py_str name (clock k) first_id last_id;
                          success = (dry \<or> put_ok k)
                      in if success
                         then if \<not> dry
                              then (case doc_ids batch of
                                      Inl e \<Rightarrow> (False, count, coll, uploads @ [(archive_key, batch)])
                                    | Inr ids \<Rightarrow>
                                        archive_batches strftime py_str clock put_ok dry name qry
                                          (snd (coll_delete_many coll
                                                 [(''_id'', PDict [(''$in'', PList ids)])]))
                                          (skip + batch_size) (Suc k)
                                          (count +
                                           fst (coll_delete_many coll
                                                 [(''_id'', PDict [(''$in'', PList ids)])]))
                                          (uploads @ [(archive_key, batch)]))
                              else archive_batches strftime py_str clock put_ok dry name qry coll
                                     (skip + batch_size) (Suc k) (count + length batch) uploads
                         else (True, count, coll, uploads)))))"
  by pat_completeness auto
termination
proof (relation "measure (\<lambda>(strftime, py_str, clock, put_ok, dry, name, qry, coll, skip, k, count,
    uploads). length (filter (matches qry) coll) - skip)", goal_cases)
  case 1
  show ?case by simp
next
  case (2 strftime py_str clock put_ok dry name qry coll skip k count uploads batch first_id
      last_id key success ids)
  have le: "length (filter P (filter Q xs)) \<le> length (filter P xs)"
    for P Q :: "pydict \<Rightarrow> bool" and xs
    by (induction xs) auto
  have "length (filter (matches qry)
          (snd (coll_delete_many coll [(''_id'', PDict [(''$in'', PList ids)])])))
        \<le> length (filter (matches qry) coll)"
    unfolding coll_delete_many_def snd_conv by (rule le)
  moreover from 2(1,2) have "skip < length (filter (matches qry) coll)"
    by (cases "skip < length (filter (matches qry) coll)")
       (simp_all add: coll_find_skip_limit_def)
  ultimately show ?case by (simp add: batch_size_def)
next
  case (3 strftime py_str clock put_ok dry name qry coll skip k count uploads batch first_id
      last_id key success)
  then have "skip < length (filter (matches qry) coll)"
    by (cases "skip < length (filter (matches qry) coll)")
       (simp_all add: coll_find_skip_limit_def)
  then show ?case by (simp add: batch_size_def)
qed

text \<open>
  \<open>archive_old_documents(collection_name)\<close> on the database \<open>db\<close> (the collections by name).
  The result is the dictionary returned (its \<open>archived\<close> and \<open>status\<close> entries) or the
  exception raised, the database and the objects uploaded.
\<close>

definition archive_old_documents ::
  "(time \<Rightarrow> string) \<Rightarrow> (pyval \<Rightarrow> string) \<Rightarrow> (nat \<Rightarrow> time) \<Rightarrow> (nat \<Rightarrow> bool)
     \<Rightarrow> RetentionPolicyManager \<Rightarrow> (string \<Rightarrow> collection) \<Rightarrow> string \<Rightarrow> time
     \<Rightarrow> (error + ArchiveResult) \<times> (string \<Rightarrow> collection) \<times> (string \<times> pydict list) list" where
  "archive_old_documents strftime py_str clock put_ok manager db name now =
     (case map_of (retention_policies manager) name of
        None \<Rightarrow> (Inl (ValueError ''No retention policy defined''), db, [])
      | Some policy \<Rightarrow>
          if \<not> archive_enabled policy
          then (Inr \<lparr>archived = 0, status' = ''disabled''\<rparr>, db, [])
          else if \<not> s3_configured manager
          then (Inr \<lparr>archived = 0, status' = ''error''\<rparr>, db, [])
          else
            (case archive_after_days policy of
               None \<Rightarrow> (Inl TypeError, db, [])
             | Some after_days \<Rightarrow>
                 (let cutoff_date = now - days after_days;
                      qry = [(ttl_field policy, PDict [(''$lt'', PDatetime cutoff_date)])]
                  in case archive_batches strftime py_str clock put_ok (dry_run manager)
                            name qry (db name) 0 0 0 [] of
                       (ok, count, coll', uploads) \<Rightarrow>
                         (Inr \<lparr>archived = count,
                               status' = (if ok then ''success'' else ''error'')\<rparr>,
                          db(name := coll'), uploads))))"

subsection \<open>An example run\<close>

text \<open>The manager with its default policies, an object store that takes every upload, and
  2500 session documents that started at time 0, numbered by their \<open>_id\<close>.\<close>

definition default_manager :: RetentionPolicyManager where
  "default_manager =
     \<lparr>retention_policies = default_retention_policies, s3_configured = True, dry_run = False\<rparr>"

definition old_session :: "nat \<Rightarrow> pydict" where
  "old_session i = [(''_id'', PInt (int i)), (''start_time'', PDatetime 0)]"

definition old_sessions :: "nat \<Rightarrow> collection" where
  "old_sessions n = map old_session [0..<n]"

text \<open>The database whose \<open>crawl_sessions\<close> collection holds these documents.\<close>

definition session_db :: "nat \<Rightarrow> string \<Rightarrow> collection" where
  "session_db n name = (if name = ''crawl_sessions'' then old_sessions n else [])"

section \<open>Repository methods and the circuit breaker\<close>

text \<open>
  \<open>insert_one\<close> with the breaker of its repository. The document is sanitised and stamped
  before \<open>_with_retry\<close> is entered, so the \<open>ValidationError\<close> of \<open>_sanitize_input\<close> is raised
  outside the wrapper. Inside, the operation awaits the driver's \<open>insert_one\<close>; whether the
  store answers at an attempt, or the driver raises a transient transport error or any
  other error (a \<open>DuplicateKeyError\<close>, say), is given by \<open>store\<close>. The result is what the
  method returns or raises, the breaker and the collection.
\<close>

definition insert_one_cb ::
  "(string \<Rightarrow> string) \<Rightarrow> (pyval \<Rightarrow> string) \<Rightarrow> CircuitBreaker \<Rightarrow> (nat \<Rightarrow> time)
     \<Rightarrow> (nat \<Rightarrow> unit attempt) \<Rightarrow> collection \<Rightarrow> pyval \<Rightarrow> time \<Rightarrow> string
     \<Rightarrow> (error + pyval) \<times> CircuitBreaker \<times> collection" where
  "insert_one_cb sha256 py_str cb clock store coll document now oid =
     (case sanitize_input document of
        Inl e \<Rightarrow> (Inl e, cb, coll)
      | Inr d0 \<Rightarrow>
          (let d1 = dict_update d0 [(''created_at'', PDatetime now), (''updated_at'', PDatetime now)];
               d2 = (case dict_get d1 ''content'' of
                       Some c \<Rightarrow>
                         dict_set d1 ''content_hash''
                           (PStr (generate_content_hash sha256 py_str c))
                     | None \<Rightarrow> d1);
               operation = (\<lambda>attempt. map_attempt (\<lambda>_. coll_insert_one coll d2 oid) (store attempt))
           in case with_retry cb clock operation 3 of
                (Inl e, cb', calls) \<Rightarrow> (Inl e, cb', coll)
              | (Inr (inserted_id, coll'), cb', calls) \<Rightarrow>
                  (Inr (PStr (str_of py_str inserted_id)), cb', coll')))"


subsection \<open>Example calls\<close>


chapter \<open>Properties\<close>

section \<open>Dictionaries, sorting and the update wrapper\<close>

lemma map_of_dict_set: "map_of (dict_set d k v) k' = (if k' = k then Some v else map_of d k')"
  by (induction d) auto

lemma field_value_dict_set:
  "field_value (dict_set d k v) k' = (if k' = k then v else field_value d k')"
  by (simp add: field_value_def dict_get_def map_of_dict_set)

lemma dict_set_nonempty [simp]: "dict_set d k v \<noteq> []"
  by (cases d) (auto split: if_splits)

lemma sort_key_head_least:
  assumes "sort_key f xs = i # rest"
  shows "i \<in> set xs \<and> (\<forall>j \<in> set xs. f i \<le> f j)"
proof -
  have "set (sort_key f xs) = set xs" by simp
  with assms have mem: "i \<in> set xs" and sub: "set xs = insert i (set rest)" by auto
  have "sorted (map f (sort_key f xs))" by (rule sorted_sort_key)
  with assms have "\<forall>j \<in> set rest. f i \<le> f j" by auto
  with mem sub show ?thesis by auto
qed

text \<open>A caller that hands \<open>update_one\<close> the driver's update document \<open>{"$set": ...}\<close>
  instead of the plain fields has it emptied by the sanitiser: all that reaches the driver
  is the \<open>updated_at\<close> stamp.\<close>

lemma sanitize_input_PDict [simp]: "sanitize_input (PDict d) = Inr (sanitize_items d)"
  by (simp add: sanitize_input_def)

lemma startswith_dollar_set [simp]: "startswith_dollar ''$set''" "startswith_dollar ''$inc''"
  by (simp_all add: startswith_dollar_def)

lemma update_one_set_wrapper:
  "update_one sha256 py_str coll (PDict q) (PDict [(''$set'', v)]) now =
     (Inr (fst (coll_update_one coll (sanitize_items q) [(''updated_at'', PDatetime now)]) > 0),
      snd (coll_update_one coll (sanitize_items q) [(''updated_at'', PDatetime now)]))"
  by (simp add: update_one_def dict_get_def split: prod.splits)

lemma update_one_set_inc_wrapper:
  "update_one sha256 py_str coll (PDict q) (PDict [(''$set'', v), (''$inc'', w)]) now =
     (Inr (fst (coll_update_one coll (sanitize_items q) [(''updated_at'', PDatetime now)]) > 0),
      snd (coll_update_one coll (sanitize_items q) [(''updated_at'', PDatetime now)]))"
  by (simp add: update_one_def dict_get_def split: prod.splits)

section \<open>The processing queue: dequeue\<close>

lemma matches_dequeue_query: "matches (dequeue_query ty now) doc \<longleftrightarrow> eligible ty now doc"
proof -
  have sched: "condition_holds doc (''scheduled_at'', PDict [(''$lte'', PDatetime now)]) \<longleftrightarrow>
       (case field_value doc ''scheduled_at'' of PDatetime t \<Rightarrow> t \<le> now | _ \<Rightarrow> False)"
    by (cases "field_value doc ''scheduled_at''")
       (simp_all add: condition_holds_def is_operator_doc_def startswith_dollar_def
          operator_holds_def order_cmp_def)
  have st: "condition_holds doc (''status'', PStr ''pending'') \<longleftrightarrow>
       field_value doc ''status'' = PStr ''pending''"
    by (simp add: condition_holds_def is_operator_doc_def)
  have tt: "\<And>t. condition_holds doc (''task_type'', PStr t) \<longleftrightarrow>
       field_value doc ''task_type'' = PStr t"
    by (simp add: condition_holds_def is_operator_doc_def)
  show ?thesis
    by (cases ty) (auto simp: matches_def dequeue_query_def eligible_def Let_def sched st tt)
qed

lemma well_formed_taskD:
  assumes "well_formed_task a"
  obtains p c where "field_value a ''priority'' = PInt p" "field_value a ''created_at'' = PDatetime c"
  using assms unfolding well_formed_task_def
  by (cases "field_value a ''priority''"; cases "field_value a ''created_at''") simp_all

lemma dequeue_sort_key_le:
  assumes "well_formed_task a" "well_formed_task b"
  shows "sort_key_of dequeue_sort a \<le> sort_key_of dequeue_sort b \<longleftrightarrow>
     priority_of b < priority_of a \<or>
     (priority_of b = priority_of a \<and> created_of a \<le> created_of b)"
proof -
  from assms(1) obtain pa ca where a: "field_value a ''priority'' = PInt pa"
    "field_value a ''created_at'' = PDatetime ca" by (rule well_formed_taskD)
  from assms(2) obtain pb cb where b: "field_value b ''priority'' = PInt pb"
    "field_value b ''created_at'' = PDatetime cb" by (rule well_formed_taskD)
  show ?thesis
    by (auto simp: a b sort_key_of_def dequeue_sort_def priority_of_def created_of_def)
qed

lemma apply_set_dequeue:
  "apply_set doc (dequeue_update_data now) =
     dict_set (dict_set (dict_set doc ''status'' (PStr ''processing''))
        ''started_at'' (PDatetime now)) ''last_update'' (PDatetime now)"
  by (simp add: dequeue_update_data_def)

lemma find_one_and_update_cases:
  "(coll_find_one_and_update coll qry flds spec = (None, coll) \<and>
      (\<forall>d \<in> set coll. \<not> matches qry d)) \<or>
   (\<exists>i < length coll.
      matches qry (coll ! i) \<and>
      (\<forall>j < length coll. matches qry (coll ! j) \<longrightarrow>
          sort_key_of spec (coll ! i) \<le> sort_key_of spec (coll ! j)) \<and>
      coll_find_one_and_update coll qry flds spec =
        (Some (apply_set (coll ! i) flds), coll[i := apply_set (coll ! i) flds]))"
proof (cases "sort_key (\<lambda>i. sort_key_of spec (coll ! i))
             (filter (\<lambda>i. matches qry (coll ! i)) [0..<length coll])")
  case Nil
  then have "set (filter (\<lambda>i. matches qry (coll ! i)) [0..<length coll]) = {}"
    by (metis set_sort set_empty)
  then have "\<forall>d \<in> set coll. \<not> matches qry d"
    by (auto simp: in_set_conv_nth)
  with Nil show ?thesis by (simp add: coll_find_one_and_update_def)
next
  case (Cons i rest)
  from sort_key_head_least[OF Cons]
  have "i < length coll" "matches qry (coll ! i)"
    "\<forall>j < length coll. matches qry (coll ! j) \<longrightarrow>
          sort_key_of spec (coll ! i) \<le> sort_key_of spec (coll ! j)"
    by auto
  with Cons show ?thesis by (auto simp: coll_find_one_and_update_def)
qed

text \<open>
  Claim C1, as amended. When every due pending task document is well formed (it has an
  \<open>_id\<close>, an integer priority and a creation time), \<open>dequeue_next_task\<close> returns \<open>None\<close>
  and leaves the queue alone exactly when no task is pending, due (\<open>scheduled_at\<close> at most
  now) and of the requested type; otherwise it returns one such task that no other such
  task precedes in the order priority descending, creation time ascending, and that task,
  and no other, is written back with status processing and \<open>started_at\<close> and \<open>last_update\<close>
  set to now. Dependencies are not consulted and the sort has no key after \<open>created_at\<close>.
\<close>

theorem dequeue_next_task_highest_pending:
  assumes "\<forall>d \<in> set coll. eligible ty now d \<longrightarrow> well_formed_task d"
  shows "case dequeue_next_task coll ty now of
           (None, coll') \<Rightarrow> coll' = coll \<and> (\<forall>d \<in> set coll. \<not> eligible ty now d)
         | (Some task, coll') \<Rightarrow>
             (\<exists>i < length coll.
                eligible ty now (coll ! i) \<and>
                (\<forall>j < length coll. eligible ty now (coll ! j) \<longrightarrow>
                   priority_of (coll ! j) < priority_of (coll ! i) \<or>
                   (priority_of (coll ! j) = priority_of (coll ! i) \<and>
                    created_of (coll ! i) \<le> created_of (coll ! j))) \<and>
                coll' = coll[i := apply_set (coll ! i) (dequeue_update_data now)] \<and>
                document_to_task (coll' ! i) = Inr task \<and>
                id' task = field_value (coll ! i) ''_id'' \<and>
                status task = PStr ''processing'' \<and>
                started_at task = PDatetime now)"
proof -
  let ?q = "dequeue_query ty now" and ?u = "dequeue_update_data now"
  from find_one_and_update_cases[of coll ?q ?u dequeue_sort]
  show ?thesis
  proof (elim disjE conjE exE)
    assume "coll_find_one_and_update coll ?q ?u dequeue_sort = (None, coll)"
      and "\<forall>d \<in> set coll. \<not> matches ?q d"
    then show ?thesis by (simp add: dequeue_next_task_def matches_dequeue_query)
  next
    fix i
    assume i: "i < length coll" and m: "matches ?q (coll ! i)"
      and least: "\<forall>j < length coll. matches ?q (coll ! j) \<longrightarrow>
          sort_key_of dequeue_sort (coll ! i) \<le> sort_key_of dequeue_sort (coll ! j)"
      and res: "coll_find_one_and_update coll ?q ?u dequeue_sort =
        (Some (apply_set (coll ! i) ?u), coll[i := apply_set (coll ! i) ?u])"
    let ?d = "coll ! i" and ?d' = "apply_set (coll ! i) ?u"
    from m have el: "eligible ty now ?d" by (simp add: matches_dequeue_query)
    with i assms have wf: "well_formed_task ?d" by auto
    then obtain v where v: "dict_get ?d ''_id'' = Some v"
      by (auto simp: well_formed_task_def dict_has_def dict_get_def)
    then have idv: "field_value ?d ''_id'' = v" by (simp add: field_value_def)
    have g: "dict_get ?d' ''_id'' = Some v"
      using v by (simp add: apply_set_dequeue dict_get_def map_of_dict_set)
    have ne: "?d' \<noteq> []" by (simp add: apply_set_dequeue)
    obtain task where task: "document_to_task ?d' = Inr task"
      using g by (simp add: document_to_task_def)
    have flds: "id' task = v" "status task = PStr ''processing''" "started_at task = PDatetime now"
      using task g
      by (auto simp: document_to_task_def get_default_def apply_set_dequeue dict_get_def
          map_of_dict_set)
    have ord: "\<forall>j < length coll. eligible ty now (coll ! j) \<longrightarrow>
                   priority_of (coll ! j) < priority_of ?d \<or>
                   (priority_of (coll ! j) = priority_of ?d \<and>
                    created_of ?d \<le> created_of (coll ! j))"
    proof (intro allI impI)
      fix j assume j: "j < length coll" and ej: "eligible ty now (coll ! j)"
      with assms have wfj: "well_formed_task (coll ! j)" by auto
      from least j ej have "sort_key_of dequeue_sort ?d \<le> sort_key_of dequeue_sort (coll ! j)"
        by (simp add: matches_dequeue_query)
      with dequeue_sort_key_le[OF wf wfj]
      show "priority_of (coll ! j) < priority_of ?d \<or>
                   (priority_of (coll ! j) = priority_of ?d \<and>
                    created_of ?d \<le> created_of (coll ! j))" by simp
    qed
    have dq: "dequeue_next_task coll ty now = (Some task, coll[i := ?d'])"
      using res ne task by (simp add: dequeue_next_task_def)
    show ?thesis
      unfolding dq using i el ord task flds idv by auto
  qed
qed

text \<open>The theorem on the queue of three tasks with priorities 3, 5, 5: the second one is
  leased.\<close>

theorem dequeue_next_task_highest_pending_witness:
  "list_all well_formed_task scenario_queue \<and>
   (case dequeue_next_task scenario_queue None 5000 of
      (None, coll') \<Rightarrow> False
    | (Some task, coll') \<Rightarrow>
        id' task = PObjectId oid_b \<and> status task = PStr ''processing'' \<and>
        started_at task = PDatetime 5000 \<and>
        (\<exists>i < length scenario_queue.
           coll' = scenario_queue[i := apply_set (scenario_queue ! i) (dequeue_update_data 5000)]))"
proof -
  have w: "list_all well_formed_task scenario_queue"
    by code_simp
  then have h: "\<forall>d \<in> set scenario_queue. eligible None 5000 d \<longrightarrow> well_formed_task d"
    by (simp add: list_all_iff)
  have r: "map_option id' (fst (dequeue_next_task scenario_queue None 5000)) =
      Some (PObjectId oid_b)"
    by code_simp
  from dequeue_next_task_highest_pending[OF h] r w show ?thesis
    by (auto split: prod.splits option.splits)
qed

text \<open>
  Claim C1 as stated fails: the task leased from \<open>dependent_queue\<close> is the one whose
  dependency is still pending, although the other task is eligible in the claim's sense;
  and of two tasks equal in priority and creation time the one stored first is leased,
  whichever id it has.
\<close>

theorem dequeue_next_task_counterexample:
  "map_option id' (fst (dequeue_next_task dependent_queue None 5000)) = Some (PObjectId oid_a) \<and>
   field_value (dependent_queue ! 0) ''_id'' = PObjectId oid_a \<and>
   \<not> spec_eligible dependent_queue 5000 (dependent_queue ! 0) \<and>
   spec_eligible dependent_queue 5000 (dependent_queue ! 1) \<and>
   map_option id' (fst (dequeue_next_task tied_queue None 5000)) = Some (PObjectId oid_b) \<and>
   map_option id' (fst (dequeue_next_task tied_queue_rev None 5000)) = Some (PObjectId oid_a)"
  by code_simp

section \<open>The processing queue: failure and retry\<close>

text \<open>The update \<open>fail_task\<close> builds: with retries left, back to pending after
  \<open>min(60 * 2^retry_count, 3600)\<close> seconds; otherwise failed.\<close>

lemma fail_task_update_data_retry:
  assumes "retry_cnt < max_retr"
  shows "fail_task_update_data err True retry_cnt max_retr now =
     [(''error_message'', PStr err), (''last_update'', PDatetime now),
      (''retry_count'', PInt (retry_cnt + 1)), (''status'', PStr ''pending''),
      (''scheduled_at'', PDatetime (now + seconds (min (60 * 2 ^ nat retry_cnt) 3600))),
      (''worker_id'', PNone), (''started_at'', PNone)]"
  using assms by (simp add: fail_task_update_data_def calculate_next_retry_delay_def Let_def)

lemma fail_task_update_data_exhausted:
  assumes "\<not> retry_cnt < max_retr"
  shows "fail_task_update_data err retry retry_cnt max_retr now =
     [(''error_message'', PStr err), (''last_update'', PDatetime now),
      (''retry_count'', PInt (retry_cnt + 1)), (''status'', PStr ''failed''),
      (''failed_at'', PDatetime now)]"
  using assms by (simp add: fail_task_update_data_def Let_def)

text \<open>What \<open>fail_task\<close> does with it: the update is wrapped in \<open>$set\<close>, so
  \<open>update_one\<close> discards it, and reading \<open>modified_count\<close> from the returned bool raises;
  the method returns \<open>False\<close> on every input and writes at most the \<open>updated_at\<close> stamp.\<close>

lemma fail_task_never_succeeds:
  "fst (fail_task sha256 py_str coll task_id err retry now) = False"
  by (auto simp: fail_task_def update_one_set_wrapper modified_count_def Let_def
      split: sum.splits option.splits prod.splits)

lemma fail_task_only_stamps:
  "snd (fail_task sha256 py_str coll task_id err retry now) = coll \<or>
   (\<exists>oid. validate_object_id task_id = Inr oid \<and>
      snd (fail_task sha256 py_str coll task_id err retry now) =
        snd (coll_update_one coll [(''_id'', oid)] [(''updated_at'', PDatetime now)]))"
proof (cases "validate_object_id task_id")
  case (Inl e)
  then show ?thesis by (simp add: fail_task_def)
next
  case (Inr oid)
  then have s: "sanitize_items [(''_id'', oid)] = [(''_id'', oid)]"
    by (auto simp: validate_object_id_def startswith_dollar_def split: pyval.splits if_splits)
  show ?thesis using Inr s
    by (auto simp: fail_task_def update_one_set_wrapper modified_count_def Let_def
      split: sum.splits option.splits prod.splits)
qed

text \<open>
  Claim C2 at a task in processing with \<open>retry_count = 0\<close> and \<open>max_retries = 3\<close>:
  \<open>fail_task(id, "timeout", retry=True)\<close> returns \<open>False\<close>; the task keeps its status, its
  \<open>scheduled_at\<close> and its \<open>retry_count\<close>, and no \<open>error_message\<close> is recorded. Only
  \<open>updated_at\<close> changes.
\<close>

theorem fail_task_failing_input:
  "fail_task sha256 py_str processing_queue (PObjectId oid_a) ''timeout'' True 5000 =
     (False,
      [[(''_id'', PObjectId oid_a), (''task_type'', PStr ''index''), (''priority'', PInt 3),
        (''payload'', PDict []), (''status'', PStr ''processing''),
        (''created_at'', PDatetime 1000), (''scheduled_at'', PDatetime 1000),
        (''retry_count'', PInt 0), (''max_retries'', PInt 3),
        (''updated_at'', PDatetime 5000)]])"
  by code_simp

section \<open>Alerts\<close>

text \<open>
  Claim C3 at two identical \<open>create_alert\<close> calls one after the other on an empty alerts
  collection with nothing suppressed: the first inserts the alert with status active,
  \<open>occurrence_count = 1\<close> and \<open>notification_sent = False\<close>; the second inserts nothing and
  returns the id of the first, and leaves the stored alert exactly as it was, its
  \<open>occurrence_count\<close> still 1 and its \<open>last_seen\<close> still the time of the first call.
\<close>

theorem create_alert_failing_input:
  "create_alert md5 sha256 py_str [] [] timeout_alert 1000 oid_a =
     (Inr (PStr oid_a), alerts_after_first md5 py_str) \<and>
   create_alert md5 sha256 py_str (alerts_after_first md5 py_str) [] timeout_alert 2000 oid_b =
     (Inr (PStr oid_a), alerts_after_first md5 py_str) \<and>
   field_value (alerts_after_first md5 py_str ! 0) ''occurrence_count'' = PInt 1 \<and>
   field_value (alerts_after_first md5 py_str ! 0) ''last_seen'' = PDatetime 1000"
  by code_simp

section \<open>Crawl sessions\<close>

text \<open>The subtraction of a stored value from the current time always raises.\<close>

lemma aware_minus_stored_raises:
  "aware_minus_stored now v = Inl TypeError"
  by (cases v) (simp_all add: aware_minus_stored_def)

text \<open>\<open>complete_crawl_session\<close> computes the duration from \<open>datetime.now(UTC)\<close> and the
  \<open>started_at\<close> it read from the store; the subtraction raises \<open>TypeError\<close>, which the method
  catches: on every input it returns \<open>False\<close> and writes to neither collection.\<close>

lemma complete_crawl_session_never_succeeds:
  "complete_crawl_session sha256 py_str sessions sites session_id final_stats now =
     (False, sessions, sites)"
  by (simp add: complete_crawl_session_def aware_minus_stored_raises
      split: sum.splits option.splits)

text \<open>Were the duration computed, the update would still be lost: it is wrapped in \<open>$set\<close>,
  which \<open>update_one\<close> removes, so that only \<open>updated_at\<close> is written, and \<open>modified_count\<close> is
  read from the bool that \<open>update_one\<close> returns.\<close>

lemma complete_update_never_applied:
  "update_one sha256 py_str sessions (PDict [(''_id'', i)])
     (PDict [(''$set'', PDict (complete_update_data started final_stats duration now))]) now =
   update_one sha256 py_str sessions (PDict [(''_id'', i)]) (PDict []) now \<and>
   modified_count result = Inl AttributeError"
  by (simp add: update_one_def dict_get_def modified_count_def split: prod.splits)

text \<open>
  Claim C4 at a running session of an existing site: \<open>complete_crawl_session\<close> returns
  \<open>False\<close>; the session keeps status running and its initial stats, no \<open>completed_at\<close>,
  duration or final stats are written, and the site's \<open>last_crawl_time\<close> stays as it was.
\<close>

theorem complete_crawl_session_failing_input:
  "complete_crawl_session sha256 py_str running_sessions example_sites (PObjectId oid_a)
     final_stats_example 9000 =
     (False,
      [[(''_id'', PObjectId oid_a), (''site_id'', PObjectId oid_c), (''status'', PStr ''running''),
        (''stats'', PDict [(''pages_discovered'', PInt 0), (''pages_crawled'', PInt 0),
                           (''pages_failed'', PInt 0), (''bytes_downloaded'', PInt 0),
                           (''errors_count'', PInt 0), (''start_time'', PDatetime 1000)]),
        (''started_at'', PDatetime 1000), (''last_update'', PDatetime 1000),
        (''created_at'', PDatetime 1000), (''updated_at'', PDatetime 1000)]],
      example_sites)"
  by code_simp

section \<open>Retention\<close>

text \<open>The example documents: all of them are older than any positive cutoff, and the
  deletion by \<open>_id\<close> removes exactly the documents of the batch.\<close>

lemma old_session_matches_cutoff:
  "0 < c \<Longrightarrow> matches [(''start_time'', PDict [(''$lt'', PDatetime c)])] (old_session i)"
  by (simp add: matches_def condition_holds_def is_operator_doc_def operator_holds_def
      order_cmp_def field_value_def dict_get_def old_session_def startswith_dollar_def)

lemma old_session_matches_ids:
  "matches [(''_id'', PDict [(''$in'', PList (map (\<lambda>i. PInt (int i)) js))])] (old_session i)
     \<longleftrightarrow> i \<in> set js"
  by (auto simp: matches_def condition_holds_def is_operator_doc_def operator_holds_def
      field_value_def dict_get_def old_session_def startswith_dollar_def)

lemma doc_ids_old_sessions:
  "doc_ids (map old_session js) = Inr (map (\<lambda>i. PInt (int i)) js)"
  by (induction js) (simp_all add: dict_item_def dict_get_def old_session_def)

lemma find_old_sessions:
  "0 < c \<Longrightarrow>
   coll_find_skip_limit (map old_session js) [(''start_time'', PDict [(''$lt'', PDatetime c)])] s n =
     map old_session (take n (drop s js))"
  by (simp add: coll_find_skip_limit_def old_session_matches_cutoff filter_map o_def
      take_map drop_map)

lemma delete_old_sessions:
  "coll_delete_many (map old_session js)
     [(''_id'', PDict [(''$in'', PList (map (\<lambda>i. PInt (int i)) b))])] =
     (length (filter (\<lambda>i. i \<in> set b) js), map old_session (filter (\<lambda>i. i \<notin> set b) js))"
  by (simp add: coll_delete_many_def filter_map o_def old_session_matches_ids)

text \<open>One round of the loop whose upload succeeds, and its end.\<close>

lemma archive_batches_old_sessions_step:
  assumes "0 < c" and "take batch_size (drop s js) \<noteq> []" and "put_ok k"
  shows "archive_batches strftime py_str clock put_ok False name
           [(''start_time'', PDict [(''$lt'', PDatetime c)])] (map old_session js) s k n ups =
         archive_batches strftime py_str clock put_ok False name
           [(''start_time'', PDict [(''$lt'', PDatetime c)])]
           (map old_session (filter (\<lambda>i. i \<notin> set (take batch_size (drop s js))) js))
           (s + batch_size) (Suc k)
           (n + length (filter (\<lambda>i. i \<in> set (take batch_size (drop s js))) js))
           (ups @ [(generate_archive_key strftime py_str name (clock k)
                      (PInt (int (hd (take batch_size (drop s js)))))
                      (PInt (int (last (take batch_size (drop s js))))),
                    map old_session (take batch_size (drop s js)))])"
proof -
  let ?b = "take batch_size (drop s js)"
  have h: "dict_item (hd (map old_session ?b)) ''_id'' = Inr (PInt (int (hd ?b)))"
    using assms(2) by (simp add: hd_map dict_item_def dict_get_def old_session_def)
  have l: "dict_item (last (map old_session ?b)) ''_id'' = Inr (PInt (int (last ?b)))"
    using assms(2) by (simp add: last_map dict_item_def dict_get_def old_session_def)
  show ?thesis
    using assms(2,3)
    by (subst archive_batches.simps)
       (simp add: find_old_sessions[OF assms(1)] h l doc_ids_old_sessions delete_old_sessions
          Let_def del: archive_batches.simps)
qed

lemma archive_batches_old_sessions_stop:
  assumes "0 < c" and "take batch_size (drop s js) = []"
  shows "archive_batches strftime py_str clock put_ok dry name
           [(''start_time'', PDict [(''$lt'', PDatetime c)])] (map old_session js) s k n ups =
         (True, n, map old_session js, ups)"
  using assms(2)
  by (subst archive_batches.simps) (simp add: find_old_sessions[OF assms(1)] Let_def)

lemma filter_not_in_upt_prefix:
  "a \<le> b \<Longrightarrow> b \<le> c \<Longrightarrow> filter (\<lambda>i. i \<notin> set [a..<b]) [a..<c] = [b..<c]"
proof -
  assume ab: "a \<le> b" and bc: "b \<le> c"
  have "[a..<c] = [a..<b] @ [b..<c]" using ab bc by (metis le_Suc_ex upt_add_eq_append)
  then show ?thesis by (simp add: filter_empty_conv)
qed

lemma filter_not_in_upt_suffix:
  "a \<le> b \<Longrightarrow> b \<le> c \<Longrightarrow> filter (\<lambda>i. i \<notin> set [b..<c]) [a..<c] = [a..<b]"
proof -
  assume ab: "a \<le> b" and bc: "b \<le> c"
  have "[a..<c] = [a..<b] @ [b..<c]" using ab bc by (metis le_Suc_ex upt_add_eq_append)
  then show ?thesis by (simp add: filter_empty_conv)
qed

lemma length_filter_in_upt_prefix:
  assumes "a \<le> b" and "b \<le> c"
  shows "length (filter (\<lambda>i. i \<in> set [a..<b]) [a..<c]) = b - a"
proof -
  have "length (filter (\<lambda>i. i \<in> set [a..<b]) [a..<c]) +
        length (filter (\<lambda>i. \<not> i \<in> set [a..<b]) [a..<c]) = length [a..<c]"
    by (rule sum_length_filter_compl)
  then show ?thesis
    using assms by (simp only: filter_not_in_upt_prefix[OF assms] length_upt)
qed

lemma length_filter_in_upt_suffix:
  assumes "a \<le> b" and "b \<le> c"
  shows "length (filter (\<lambda>i. i \<in> set [b..<c]) [a..<c]) = c - b"
proof -
  have "length (filter (\<lambda>i. i \<in> set [b..<c]) [a..<c]) +
        length (filter (\<lambda>i. \<not> i \<in> set [b..<c]) [a..<c]) = length [a..<c]"
    by (rule sum_length_filter_compl)
  then show ?thesis
    using assms by (simp only: filter_not_in_upt_suffix[OF assms] length_upt)
qed


text \<open>The run on 2500 documents: the second batch is read after the first 1000 documents
  were deleted and with \<open>skip = 1000\<close>, so it holds the documents 2000 to 2499; the third
  read, with \<open>skip = 2000\<close> on the 1000 documents left, is empty.\<close>

lemma archive_batches_2500:
  assumes "0 < c"
  shows "archive_batches strftime py_str clock (\<lambda>k. True) False name
           [(''start_time'', PDict [(''$lt'', PDatetime c)])] (old_sessions 2500) 0 0 0 [] =
         (True, 1500, map old_session [1000..<2000],
          [(generate_archive_key strftime py_str name (clock 0) (PInt 0) (PInt 999),
            map old_session [0..<1000]),
           (generate_archive_key strftime py_str name (clock 1) (PInt 2000) (PInt 2499),
            map old_session [2000..<2500])])"
proof -
  let ?q = "[(''start_time'', PDict [(''$lt'', PDatetime c)])]"
  have b0: "take batch_size (drop 0 [0..<2500]) = [0..<1000]"
    by (simp add: batch_size_def del: upt_rec_numeral)
  have b1: "take batch_size (drop (0 + batch_size) [1000..<2500]) = [2000..<2500]"
    by (simp add: batch_size_def del: upt_rec_numeral)
  have b2: "take batch_size (drop (0 + batch_size + batch_size) [1000..<2000]) = []"
    by (simp add: batch_size_def del: upt_rec_numeral)
  have f0: "filter (\<lambda>i. i \<notin> set [0..<1000]) [0..<2500] = [1000..<2500]"
    by (rule filter_not_in_upt_prefix) (simp_all del: upt_rec_numeral)
  have f1: "filter (\<lambda>i. i \<notin> set [2000..<2500]) [1000..<2500] = [1000..<2000]"
    by (rule filter_not_in_upt_suffix) (simp_all del: upt_rec_numeral)
  have n0: "length (filter (\<lambda>i. i \<in> set [0..<1000]) [0..<2500]) = 1000"
    using length_filter_in_upt_prefix[of 0 1000 2500] by (simp del: upt_rec_numeral)
  have n1: "length (filter (\<lambda>i. i \<in> set [2000..<2500]) [1000..<2500]) = 500"
    using length_filter_in_upt_suffix[of 1000 2000 2500] by (simp del: upt_rec_numeral)
  have h0: "hd [0..<1000::nat] = 0" "last [0..<1000::nat] = 999"
    by (simp_all add: hd_upt last_upt del: upt_rec_numeral)
  have h1: "hd [2000..<2500::nat] = 2000" "last [2000..<2500::nat] = 2499"
    by (simp_all add: hd_upt last_upt del: upt_rec_numeral)
  have "archive_batches strftime py_str clock (\<lambda>k. True) False name ?q (old_sessions 2500) 0 0 0 [] =
        archive_batches strftime py_str clock (\<lambda>k. True) False name ?q (map old_session [1000..<2500])
          (0 + batch_size) (Suc 0) (0 + 1000)
          ([] @ [(generate_archive_key strftime py_str name (clock 0) (PInt 0) (PInt 999),
            map old_session [0..<1000])])"
    unfolding old_sessions_def
    by (subst archive_batches_old_sessions_step[OF assms])
       (simp_all only: b0 f0 n0 h0 of_nat_0 of_nat_numeral, simp_all del: upt_rec_numeral)
  also have "\<dots> =
        archive_batches strftime py_str clock (\<lambda>k. True) False name ?q (map old_session [1000..<2000])
          (0 + batch_size + batch_size) (Suc (Suc 0)) (0 + 1000 + 500)
          (([] @ [(generate_archive_key strftime py_str name (clock 0) (PInt 0) (PInt 999),
            map old_session [0..<1000])]) @
           [(generate_archive_key strftime py_str name (clock 1) (PInt 2000) (PInt 2499),
            map old_session [2000..<2500])])"
    by (subst archive_batches_old_sessions_step[OF assms])
       (simp_all only: b1 f1 n1 h1 of_nat_numeral One_nat_def, simp_all del: upt_rec_numeral)
  also have "\<dots> = (True, 0 + 1000 + 500, map old_session [1000..<2000],
          ([] @ [(generate_archive_key strftime py_str name (clock 0) (PInt 0) (PInt 999),
            map old_session [0..<1000])]) @
           [(generate_archive_key strftime py_str name (clock 1) (PInt 2000) (PInt 2499),
            map old_session [2000..<2500])])"
    by (rule archive_batches_old_sessions_stop[OF assms b2])
  finally show ?thesis by (simp del: upt_rec_numeral)
qed

text \<open>
  A failed upload ends the loop: the collection, the count and the uploads stay as they were
  when the batch was read.
\<close>

lemma archive_batches_upload_failure:
  "\<not> dry \<Longrightarrow> \<not> put_ok k \<Longrightarrow>
   snd (archive_batches strftime py_str clock put_ok dry name qry coll skip k count uploads) =
     (count, coll, uploads)"
  by (subst archive_batches.simps)
     (simp add: Let_def split: sum.splits del: archive_batches.simps)

text \<open>
  Claim C5 at 2500 session documents older than 90 days, the default policies and an object
  store that takes every upload: \<open>archive_old_documents\<close> reports success with 1500 documents
  archived, uploads two objects (the documents 0 to 999 and 2000 to 2499), and leaves the
  documents 1000 to 1999 in the collection.
\<close>

theorem archive_old_documents_failing_input:
  "archive_old_documents strftime py_str clock (\<lambda>k. True) default_manager (session_db 2500)
     ''crawl_sessions'' (days 91) =
   (Inr \<lparr>archived = 1500, status' = ''success''\<rparr>,
    (session_db 2500)(''crawl_sessions'' := map old_session [1000..<2000]),
    [(''archives/crawl_sessions/'' @ strftime (clock 0) @ ''_'' @ py_str (PInt 0) @ ''_'' @
        py_str (PInt 999) @ ''.json.gz'', map old_session [0..<1000]),
     (''archives/crawl_sessions/'' @ strftime (clock 1) @ ''_'' @ py_str (PInt 2000) @ ''_'' @
        py_str (PInt 2499) @ ''.json.gz'', map old_session [2000..<2500])])"
proof -
  have c: "0 < days 91 - days 90" by (simp add: days_def seconds_def)
  have p: "map_of (retention_policies default_manager) ''crawl_sessions'' =
           Some \<lparr>collection_name = ''crawl_sessions'', ttl_field = ''start_time'',
             retention_days = 90, archive_enabled = True, archive_after_days = Some 90,
             compression_enabled = True\<rparr>"
    by (simp add: default_manager_def default_retention_policies_def)
  show ?thesis
    unfolding archive_old_documents_def p
    by (simp add: default_manager_def session_db_def archive_batches_2500[OF c]
        generate_archive_key_def str_of_def del: archive_batches.simps upt_rec_numeral)
qed

section \<open>URL parsing and normalisation: lemmas\<close>

text \<open>The fragment of a URL never reaches the split of the rest.\<close>

lemma hash_not_scheme_char [simp]: "\<not> is_scheme_char CHR ''#''"
  by (simp add: is_scheme_char_def is_ascii_alpha_def Let_def)

lemma hash_not_stripped [simp]:
  "\<not> is_c0_control_or_space CHR ''#''" "\<not> is_unsafe_url_byte CHR ''#''"
  by (simp_all add: is_c0_control_or_space_def is_unsafe_url_byte_def)

lemma dropWhile_append_stop:
  "\<not> P y \<Longrightarrow> dropWhile P (xs @ y # ys) = dropWhile P xs @ y # ys"
  by (induction xs) auto

lemma takeWhile_append_stop:
  "\<not> P y \<Longrightarrow> takeWhile P (xs @ y # ys) = takeWhile P xs"
  by (induction xs) auto

lemma strip_url_fragment:
  "strip_url (b @ CHR ''#'' # f) =
     strip_url b @ CHR ''#'' # filter (\<lambda>c. \<not> is_unsafe_url_byte c) f"
  by (simp add: strip_url_def dropWhile_append_stop)

lemma strip_url_no_hash: "CHR ''#'' \<notin> set b \<Longrightarrow> CHR ''#'' \<notin> set (strip_url b)"
  by (auto simp: strip_url_def dest: set_dropWhileD)

lemma take2_append_hash:
  "CHR ''#'' \<notin> set c \<Longrightarrow> take 2 (c @ CHR ''#'' # f) = ''//'' \<longleftrightarrow> take 2 c = ''//''"
  by (cases c; cases "tl c") auto

lemma drop2_append_hash:
  "take 2 c = ''//'' \<Longrightarrow> drop 2 (c @ CHR ''#'' # f) = drop 2 c @ CHR ''#'' # f"
  by (cases c; cases "tl c") auto

lemma take2_slashes: "take 2 c = ''//'' \<Longrightarrow> \<exists>c'. c = ''//'' @ c'"
  by (cases c; cases "tl c") auto

lemma splitnetloc_fragment:
  assumes "take 2 c = ''//''"
  shows "fst (splitnetloc (c @ CHR ''#'' # f)) = fst (splitnetloc c)"
    and "snd (splitnetloc (c @ CHR ''#'' # f)) = snd (splitnetloc c) @ CHR ''#'' # f"
proof -
  from take2_slashes[OF assms] obtain c' where c: "c = ''//'' @ c'" by blast
  show "fst (splitnetloc (c @ CHR ''#'' # f)) = fst (splitnetloc c)"
    by (simp add: c splitnetloc_def takeWhile_append_stop)
  show "snd (splitnetloc (c @ CHR ''#'' # f)) = snd (splitnetloc c) @ CHR ''#'' # f"
    by (simp add: c splitnetloc_def dropWhile_append_stop)
qed

lemma splitnetloc_no_hash:
  "CHR ''#'' \<notin> set c \<Longrightarrow> CHR ''#'' \<notin> set (snd (splitnetloc c))"
  by (auto simp: splitnetloc_def dest: set_dropWhileD in_set_dropD)

lemma split_first_append:
  "c \<notin> set xs \<Longrightarrow> split_first c (xs @ c # ys) = (xs, ys)"
  by (induction xs) (auto simp: split_first_def)

lemma takeWhile_append_absent:
  "c \<notin> set xs \<Longrightarrow> takeWhile (\<lambda>x. x \<noteq> c) (xs @ ys) = xs @ takeWhile (\<lambda>x. x \<noteq> c) ys"
  by (induction xs) auto

lemma has_scheme_fragment:
  assumes "CHR ''#'' \<notin> set b"
  shows "has_scheme (b @ CHR ''#'' # f) \<longleftrightarrow> has_scheme b"
proof (cases "CHR '':'' \<in> set b")
  case True
  then have "takeWhile (\<lambda>c. c \<noteq> CHR '':'') (b @ CHR ''#'' # f) = takeWhile (\<lambda>c. c \<noteq> CHR '':'') b"
    by (simp add: takeWhile_append1)
  moreover from True have "b \<noteq> []" by auto
  ultimately show ?thesis using True by (simp add: has_scheme_def)
next
  case False
  then have "takeWhile (\<lambda>c. c \<noteq> CHR '':'') (b @ CHR ''#'' # f) =
      b @ CHR ''#'' # takeWhile (\<lambda>c. c \<noteq> CHR '':'') f"
    by (simp add: takeWhile_append_absent)
  then show ?thesis using False by (simp add: has_scheme_def)
qed

lemma after_colon_fragment:
  assumes "CHR '':'' \<in> set b"
  shows "tl (dropWhile (\<lambda>c. c \<noteq> CHR '':'') (b @ CHR ''#'' # f)) =
         tl (dropWhile (\<lambda>c. c \<noteq> CHR '':'') b) @ CHR ''#'' # f"
proof -
  from assms have "dropWhile (\<lambda>c. c \<noteq> CHR '':'') (b @ CHR ''#'' # f) =
      dropWhile (\<lambda>c. c \<noteq> CHR '':'') b @ CHR ''#'' # f"
    by (simp add: dropWhile_append1)
  moreover from assms have "dropWhile (\<lambda>c. c \<noteq> CHR '':'') b \<noteq> []"
    by (simp add: dropWhile_eq_Nil_conv)
  ultimately show ?thesis by simp
qed

lemma after_colon_no_hash:
  "CHR ''#'' \<notin> set b \<Longrightarrow> CHR ''#'' \<notin> set (tl (dropWhile (\<lambda>c. c \<noteq> CHR '':'') b))"
  by (metis list.sel(2) list.set_sel(2) set_dropWhileD)

lemma after_scheme_fragment:
  assumes "CHR ''#'' \<notin> set c"
  shows "after_scheme sch (c @ CHR ''#'' # f) =
     map_sum (\<lambda>e. e) (\<lambda>r. r\<lparr>fragment := f\<rparr>) (after_scheme sch c)"
proof (cases "take 2 c = ''//''")
  case True
  with assms have nh: "CHR ''#'' \<notin> set (snd (splitnetloc c))" by (simp add: splitnetloc_no_hash)
  have t: "take 2 (c @ CHR ''#'' # f) = ''//''" using take2_append_hash[OF assms, of f] True by blast
  show ?thesis
    unfolding after_scheme_def Let_def
    by (simp only: t True if_True splitnetloc_fragment[OF True])
       (simp add: split_first_append nh)
next
  case False
  have t: "take 2 (c @ CHR ''#'' # f) \<noteq> ''//''" using take2_append_hash[OF assms, of f] False by blast
  show ?thesis
    unfolding after_scheme_def Let_def
    by (simp only: t False if_False) (simp add: split_first_append assms)
qed

lemma urlsplit_stripped_fragment:
  assumes "CHR ''#'' \<notin> set b"
  shows "urlsplit_stripped (b @ CHR ''#'' # f) =
     map_sum (\<lambda>e. e) (\<lambda>r. r\<lparr>fragment := f\<rparr>) (urlsplit_stripped b)"
proof (cases "has_scheme b")
  case True
  then have colon: "CHR '':'' \<in> set b" by (simp add: has_scheme_def)
  show ?thesis
    using True colon assms
    by (simp add: urlsplit_stripped_def has_scheme_fragment after_colon_fragment
        after_scheme_fragment after_colon_no_hash takeWhile_append1)
next
  case False
  then show ?thesis using assms
    by (simp add: urlsplit_stripped_def has_scheme_fragment after_scheme_fragment)
qed

lemma urlsplit_fragment:
  assumes "CHR ''#'' \<notin> set b"
  shows "\<exists>f'. urlsplit (b @ CHR ''#'' # f) =
     map_sum (\<lambda>e. e) (\<lambda>r. r\<lparr>fragment := f'\<rparr>) (urlsplit b)"
  using urlsplit_stripped_fragment[OF strip_url_no_hash[OF assms]]
  by (auto simp: urlsplit_def strip_url_fragment)

lemma normalize_url_fragment:
  assumes "CHR ''#'' \<notin> set b"
  shows "normalize_url (b @ CHR ''#'' # f) = normalize_url b"
proof -
  from urlsplit_fragment[OF assms] obtain f' where
    u: "urlsplit (b @ CHR ''#'' # f) = map_sum (\<lambda>e. e) (\<lambda>r. r\<lparr>fragment := f'\<rparr>) (urlsplit b)"
    by blast
  show ?thesis
    by (cases "urlsplit b") (simp_all add: normalize_url_def urlparse_def u Let_def)
qed

lemma normalize_url_drops_fragment:
  "normalize_url (takeWhile (\<lambda>c. c \<noteq> CHR ''#'') u) = normalize_url u"
proof (cases "CHR ''#'' \<in> set u")
  case False
  then have "takeWhile (\<lambda>c. c \<noteq> CHR ''#'') u = u" by (simp add: takeWhile_eq_all_conv) blast
  then show ?thesis by (rule arg_cong)
next
  case True
  let ?b = "takeWhile (\<lambda>c. c \<noteq> CHR ''#'') u" and ?d = "dropWhile (\<lambda>c. c \<noteq> CHR ''#'') u"
  from True have ne: "?d \<noteq> []" by (simp add: dropWhile_eq_Nil_conv)
  then have "hd ?d = CHR ''#''" using hd_dropWhile[of "\<lambda>c. c \<noteq> CHR ''#''" u] by simp
  with ne have d: "?d = CHR ''#'' # tl ?d" by (cases ?d) auto
  have "?b @ ?d = u" by (rule takeWhile_dropWhile_id)
  then have e: "?b @ CHR ''#'' # tl ?d = u" by (simp only: d[symmetric])
  have nh: "CHR ''#'' \<notin> set ?b" by (auto dest: set_takeWhileD)
  have "normalize_url ?b = normalize_url (?b @ CHR ''#'' # tl ?d)"
    by (rule normalize_url_fragment[OF nh, symmetric])
  also have "\<dots> = normalize_url u" by (simp only: e)
  finally show ?thesis .
qed

text \<open>The scheme is in lower case, the netloc holds no slash, and what stripping trailing
  slashes does to a concatenation.\<close>

lemma ascii_lower_idem [simp]: "ascii_lower (ascii_lower c) = ascii_lower c"
proof -
  have "of_char c < (256 :: nat)" by simp
  then show ?thesis
    by (auto simp: ascii_lower_def Let_def)
qed

lemma after_scheme_netloc:
  "after_scheme sch url2 = Inr r \<Longrightarrow>
     scheme r = sch \<and> CHR ''/'' \<notin> set (netloc r)"
  by (auto simp: after_scheme_def Let_def splitnetloc_def split: if_splits dest: set_takeWhileD)

lemma urlsplit_scheme_netloc:
  assumes "urlsplit u = Inr r"
  shows "map ascii_lower (scheme r) = scheme r \<and> CHR ''/'' \<notin> set (netloc r)"
  using assms after_scheme_netloc
  by (fastforce simp: urlsplit_def urlsplit_stripped_def split: if_splits)

lemma urlparse_scheme_netloc:
  assumes "urlparse u = Inr p"
  shows "map ascii_lower (scheme p) = scheme p \<and> CHR ''/'' \<notin> set (netloc p)"
  using assms urlsplit_scheme_netloc
  by (fastforce simp: urlparse_def split: sum.splits if_splits)

lemma rstrip_slash_append:
  "rstrip_slash (xs @ ys) =
     (if \<forall>c \<in> set ys. c = CHR ''/'' then rstrip_slash xs else xs @ rstrip_slash ys)"
  by (simp add: rstrip_slash_def dropWhile_append)

lemma rstrip_slash_no_slash:
  "xs \<noteq> [] \<Longrightarrow> last xs \<noteq> CHR ''/'' \<Longrightarrow> rstrip_slash xs = xs"
  by (cases xs rule: rev_cases) (simp_all add: rstrip_slash_def)

lemma rstrip_slash_idem [simp]: "rstrip_slash (rstrip_slash xs) = rstrip_slash xs"
proof (cases "rstrip_slash xs = []")
  case True
  then show ?thesis by (simp add: rstrip_slash_def)
next
  case False
  then have "hd (dropWhile (\<lambda>c. c = CHR ''/'') (rev xs)) \<noteq> CHR ''/''"
    using hd_dropWhile[of "\<lambda>c. c = CHR ''/''" "rev xs"] by (simp add: rstrip_slash_def)
  with False have "last (rstrip_slash xs) \<noteq> CHR ''/''"
    by (simp add: rstrip_slash_def last_rev)
  with False show ?thesis by (rule rstrip_slash_no_slash)
qed

lemma rstrip_slash_after:
  assumes "xs \<noteq> []" "last xs \<noteq> CHR ''/''"
  shows "rstrip_slash (xs @ ys) = xs @ rstrip_slash ys"
proof (cases "\<forall>c \<in> set ys. c = CHR ''/''")
  case True
  then have "dropWhile (\<lambda>c. c = CHR ''/'') (rev ys) = []" by (simp add: dropWhile_eq_Nil_conv)
  then have "rstrip_slash ys = []" by (simp add: rstrip_slash_def)
  with True assms show ?thesis by (simp add: rstrip_slash_append rstrip_slash_no_slash)
next
  case False
  then show ?thesis by (auto simp: rstrip_slash_append)
qed

section \<open>URL normalisation\<close>

text \<open>
  Claim C6, as amended. For every URL that \<open>urlparse\<close> accepts and that has a netloc,
  the normalised URL is the scheme in lower case, \<open>://\<close>, the netloc exactly as written
  (the host keeps its case), the path without any trailing slash (a root path \<open>/\<close> becomes
  empty) and, when the query is not empty, \<open>?\<close> and the query without its trailing slashes;
  the fragment has no influence on the result.
\<close>

theorem normalize_url_characterisation:
  assumes "urlparse u = Inr p" and "netloc p \<noteq> []"
  shows "normalize_url u =
           Inr (scheme p @ ''://'' @ netloc p @ rstrip_slash (path p) @
                (if query p = [] then [] else CHR ''?'' # rstrip_slash (query p))) \<and>
         map ascii_lower (scheme p) = scheme p \<and>
         normalize_url (takeWhile (\<lambda>c. c \<noteq> CHR ''#'') u) = normalize_url u"
proof -
  let ?head = "scheme p @ ''://'' @ netloc p"
  from urlparse_scheme_netloc[OF assms(1)]
  have low: "map ascii_lower (scheme p) = scheme p" and ns: "CHR ''/'' \<notin> set (netloc p)"
    by simp_all
  from assms(2) ns have hl: "?head \<noteq> []" "last ?head \<noteq> CHR ''/''"
    by (auto simp: last_append dest: last_in_set)
  have n1: "rstrip_slash (?head @ path p) = ?head @ rstrip_slash (path p)"
    using hl by (rule rstrip_slash_after)
  have n2: "rstrip_slash ((?head @ rstrip_slash (path p)) @ CHR ''?'' # query p) =
              (?head @ rstrip_slash (path p)) @ CHR ''?'' # rstrip_slash (query p)"
  proof -
    have "rstrip_slash (((?head @ rstrip_slash (path p)) @ ''?'') @ query p) =
            ((?head @ rstrip_slash (path p)) @ ''?'') @ rstrip_slash (query p)"
      by (rule rstrip_slash_after) simp_all
    then show ?thesis by simp
  qed
  have n3: "rstrip_slash (?head @ rstrip_slash (path p)) = ?head @ rstrip_slash (path p)"
    using rstrip_slash_after[OF hl, of "rstrip_slash (path p)"] by simp
  have "normalize_url u =
           Inr (?head @ rstrip_slash (path p) @
                (if query p = [] then [] else CHR ''?'' # rstrip_slash (query p)))"
  proof (cases "query p = []")
    case True
    then show ?thesis using n1 n3 assms(1) by (simp add: normalize_url_def Let_def)
  next
    case False
    then show ?thesis using n1 n2 assms(1) by (simp add: normalize_url_def Let_def)
  qed
  then show ?thesis using low normalize_url_drops_fragment by simp
qed

text \<open>The theorem at \<open>HTTP://Example.COM/Path/?q=1#frag\<close>.\<close>

theorem normalize_url_characterisation_witness:
  "urlparse ''HTTP://Example.COM/Path/?q=1#frag'' =
     Inr \<lparr>scheme = ''http'', netloc = ''Example.COM'', path = ''/Path/'', params = [],
          query = ''q=1'', fragment = ''frag''\<rparr> \<and>
   normalize_url ''HTTP://Example.COM/Path/?q=1#frag'' = Inr ''http://Example.COM/Path?q=1''"
proof -
  have p: "urlparse ''HTTP://Example.COM/Path/?q=1#frag'' =
     Inr \<lparr>scheme = ''http'', netloc = ''Example.COM'', path = ''/Path/'', params = [],
          query = ''q=1'', fragment = ''frag''\<rparr>"
    by code_simp
  have r: "rstrip_slash ''/Path/'' = ''/Path''" "rstrip_slash ''q=1'' = ''q=1''"
    by (simp_all add: rstrip_slash_def)
  from normalize_url_characterisation[OF p] p r show ?thesis by simp
qed

text \<open>
  Claim C6 as stated fails: the host of \<open>HTTP://Example.COM/\<close> keeps its capitals and its
  root path \<open>/\<close> is stripped, and the query \<open>next=/\<close> loses its trailing slash.
\<close>

theorem normalize_url_counterexample:
  "normalize_url ''HTTP://Example.COM/'' = Inr ''http://Example.COM'' \<and>
   normalize_url ''https://example.com/a?next=/'' = Inr ''https://example.com/a?next=''"
  by code_simp

section \<open>Pages: uniqueness of the URL per site\<close>

lemma site_id_scalar:
  assumes "get_crawl_configuration sites sid \<noteq> None"
  shows "(\<exists>s. sid = PObjectId s) \<or> (\<exists>s. sid = PStr s)"
  using assms
  by (cases sid) (simp_all add: get_crawl_configuration_def validate_object_id_def)

lemma field_value_Nil [simp]: "field_value [] k = PNone"
  by (simp add: field_value_def dict_get_def)

lemma matches_page_query:
  assumes "(\<exists>s. sid = PObjectId s) \<or> (\<exists>s. sid = PStr s)"
  shows "matches [(''site_id'', sid), (''url'', PStr u)] d \<longleftrightarrow> page_key d = (sid, PStr u)"
  using assms
  by (auto simp: matches_def condition_holds_def is_operator_doc_def page_key_def)

lemma find_one_page:
  assumes "(\<exists>s. sid = PObjectId s) \<or> (\<exists>s. sid = PStr s)"
  shows "find_one pages (PDict [(''site_id'', sid), (''url'', PStr u)]) =
     (case find (\<lambda>d. page_key d = (sid, PStr u)) pages of
        None \<Rightarrow> Inr None
      | Some d \<Rightarrow> Inr (Some (convert_items d)))"
proof -
  have s: "sanitize_items [(''site_id'', sid), (''url'', PStr u)] =
      [(''site_id'', sid), (''url'', PStr u)]"
    using assms by (auto simp: startswith_dollar_def)
  have f: "find (matches [(''site_id'', sid), (''url'', PStr u)]) pages =
      find (\<lambda>d. page_key d = (sid, PStr u)) pages"
    by (rule find_cong) (simp_all add: matches_page_query[OF assms])
  have si: "sanitize_input (PDict [(''site_id'', sid), (''url'', PStr u)]) =
      Inr [(''site_id'', sid), (''url'', PStr u)]"
    unfolding sanitize_input_PDict s ..
  show ?thesis
  proof (cases "find (\<lambda>d. page_key d = (sid, PStr u)) pages")
    case None
    then show ?thesis unfolding find_one_def si by (simp add: coll_find_one_def f)
  next
    case (Some d)
    then have "page_key d = (sid, PStr u)" by (auto simp: find_Some_iff)
    then have "d \<noteq> []" by (auto simp: page_key_def)
    with Some show ?thesis unfolding find_one_def si by (simp add: coll_find_one_def f)
  qed
qed

lemma convert_items_nonempty [simp]: "convert_items d = [] \<longleftrightarrow> d = []"
  by (cases d) auto

lemma create_page_duplicate:
  assumes "get_crawl_configuration sites (PageCreate.site_id page_data) \<noteq> None"
    and "normalize_url (PageCreate.url page_data) = Inr u"
    and "\<exists>d \<in> set pages. page_key d = (PageCreate.site_id page_data, PStr u)"
  shows "create_page sha256 py_str sites pages page_data now oid =
           (Inl DuplicateResourceError, pages)"
proof -
  from assms(3) obtain d where
    "find (\<lambda>d. page_key d = (PageCreate.site_id page_data, PStr u)) pages = Some d"
    by (cases "find (\<lambda>d. page_key d = (PageCreate.site_id page_data, PStr u)) pages")
       (auto simp: find_None_iff)
  then show ?thesis
    using assms(1,2) find_one_page[OF site_id_scalar[OF assms(1)], of pages u]
    by (auto simp: create_page_def)
qed

lemma insert_one_page_doc:
  assumes "sanitize_value sid = sid"
  shows "\<exists>doc. insert_one sha256 py_str pages
           (PDict [(''site_id'', sid), (''url'', PStr u), (''title'', t), (''content'', c),
                   (''content_hash'', h), (''author'', a), (''published_date'', pd),
                   (''processing_status'', PStr ''pending''), (''content_length'', PInt n),
                   (''created_at'', PDatetime now), (''updated_at'', PDatetime now),
                   (''last_modified'', PDatetime now)]) now oid =
           (Inr (PStr oid), pages @ [doc]) \<and> page_key doc = (sid, PStr u)"
  using assms
  by (simp add: insert_one_def Let_def startswith_dollar_def dict_get_def coll_insert_one_def
      page_key_def field_value_def str_of_def)

lemma create_page_success:
  assumes "create_page sha256 py_str sites pages page_data now oid = (Inr r, pages1)"
  shows "\<exists>u doc. normalize_url (PageCreate.url page_data) = Inr u \<and>
           get_crawl_configuration sites (PageCreate.site_id page_data) \<noteq> None \<and>
           pages1 = pages @ [doc] \<and>
           page_key doc = (PageCreate.site_id page_data, PStr u) \<and>
           (\<forall>d \<in> set pages. page_key d \<noteq> (PageCreate.site_id page_data, PStr u))"
proof -
  let ?sid = "PageCreate.site_id page_data"
  from assms obtain cfg where cfg: "get_crawl_configuration sites ?sid = Some cfg"
    by (cases "get_crawl_configuration sites ?sid") (auto simp: create_page_def)
  then have ex: "get_crawl_configuration sites ?sid \<noteq> None" by simp
  then have sc: "(\<exists>s. ?sid = PObjectId s) \<or> (\<exists>s. ?sid = PStr s)"
    by (rule site_id_scalar)
  from assms cfg obtain u where u: "normalize_url (PageCreate.url page_data) = Inr u"
    by (cases "normalize_url (PageCreate.url page_data)") (auto simp: create_page_def)
  have none: "find (\<lambda>d. page_key d = (?sid, PStr u)) pages = None"
    using assms cfg u find_one_page[OF sc, of pages u]
    by (cases "find (\<lambda>d. page_key d = (?sid, PStr u)) pages") (auto simp: create_page_def)
  then have fresh: "\<forall>d \<in> set pages. page_key d \<noteq> (?sid, PStr u)"
    by (auto simp: find_None_iff)
  have fo: "find_one pages (PDict [(''site_id'', ?sid), (''url'', PStr u)]) = Inr None"
    using find_one_page[OF sc, of pages u] none by simp
  have sv: "sanitize_value ?sid = ?sid" using sc by auto
  obtain n where len: "(if truthy (PageCreate.content page_data)
      then py_len (PageCreate.content page_data) else Inr 0) = Inr n"
    using assms cfg u fo
    by (cases "if truthy (PageCreate.content page_data)
      then py_len (PageCreate.content page_data) else Inr 0")
       (auto simp: create_page_def)
  from insert_one_page_doc[OF sv] obtain doc where
    "insert_one sha256 py_str pages
           (PDict [(''site_id'', ?sid), (''url'', PStr u),
                   (''title'', PageCreate.title page_data),
                   (''content'', PageCreate.content page_data),
                   (''content_hash'',
                      if truthy (PageCreate.content page_data)
                      then PStr (generate_content_hash sha256 py_str (PageCreate.content page_data))
                      else PNone),
                   (''author'', author page_data),
                   (''published_date'', published_date page_data),
                   (''processing_status'', PStr ''pending''), (''content_length'', PInt n),
                   (''created_at'', PDatetime now), (''updated_at'', PDatetime now),
                   (''last_modified'', PDatetime now)]) now oid =
           (Inr (PStr oid), pages @ [doc])"
    and key: "page_key doc = (?sid, PStr u)"
    by blast
  with assms cfg u fo len have "pages1 = pages @ [doc]"
    by (simp add: create_page_def Let_def)
  with u ex key fresh show ?thesis by blast
qed

lemma insert_one_PDict_Inr:
  "\<exists>r coll'. insert_one sha256 py_str coll (PDict d) now oid = (Inr r, coll')"
  by (simp add: insert_one_def Let_def split: prod.splits)

lemma create_page_failure:
  assumes "create_page sha256 py_str sites pages page_data now oid = (Inl e, pages1)"
  shows "pages1 = pages"
proof (cases "get_crawl_configuration sites (PageCreate.site_id page_data)")
  case None
  with assms show ?thesis by (simp add: create_page_def)
next
  case cfg: (Some c)
  show ?thesis
  proof (cases "normalize_url (PageCreate.url page_data)")
    case (Inl e')
    with assms cfg show ?thesis by (simp add: create_page_def)
  next
    case u: (Inr u)
    show ?thesis
    proof (cases "find_one pages (PDict [(''site_id'', PageCreate.site_id page_data),
                               (''url'', PStr u)])")
      case (Inl e')
      with assms cfg u show ?thesis by (simp add: create_page_def)
    next
      case fo: (Inr found)
      show ?thesis
      proof (cases found)
        case (Some d)
        with assms cfg u fo show ?thesis by (simp add: create_page_def)
      next
        case None
        show ?thesis
        proof (cases "if truthy (PageCreate.content page_data)
            then py_len (PageCreate.content page_data) else Inr 0")
          case (Inl e')
          with assms cfg u fo None show ?thesis by (simp add: create_page_def)
        next
          case (Inr n)
          with assms cfg u fo None insert_one_PDict_Inr show ?thesis
            by (simp add: create_page_def Let_def) (metis Inl_Inr_False prod.inject)
        qed
      qed
    qed
  qed
qed

text \<open>
  What \<open>create_page\<close> does guarantee is relative to the value passed as \<open>site_id\<close>, which it
  compares and stores as it is. For a site that exists and a URL that normalises to \<open>u\<close>:
  when a page with the very same \<open>site_id\<close> value and the URL \<open>u\<close> is stored, \<open>create_page\<close>
  raises \<open>DuplicateResourceError\<close> and leaves the pages as they are; \<open>create_page\<close> keeps the
  pairs of stored \<open>site_id\<close> value and URL distinct; and after a page was created, creating a
  page with the same \<open>site_id\<close> value whose URL differs from the first one's only after the
  \<open>#\<close> raises \<open>DuplicateResourceError\<close> and inserts nothing.
\<close>

lemma create_page_rejects_same_value:
  assumes "get_crawl_configuration sites (PageCreate.site_id page_data) \<noteq> None"
    and "normalize_url (PageCreate.url page_data) = Inr u"
  shows "((\<exists>d \<in> set pages. page_key d = (PageCreate.site_id page_data, PStr u)) \<longrightarrow>
            create_page sha256 py_str sites pages page_data now oid =
              (Inl DuplicateResourceError, pages)) \<and>
         (unique_pages pages \<longrightarrow>
            unique_pages (snd (create_page sha256 py_str sites pages page_data now oid))) \<and>
         (\<forall>(other :: PageCreate) r pages1 now2 oid2.
            create_page sha256 py_str sites pages page_data now oid = (Inr r, pages1) \<and>
            PageCreate.site_id other = PageCreate.site_id page_data \<and>
            takeWhile (\<lambda>c. c \<noteq> CHR ''#'') (PageCreate.url other) =
              takeWhile (\<lambda>c. c \<noteq> CHR ''#'') (PageCreate.url page_data) \<longrightarrow>
            create_page sha256 py_str sites pages1 other now2 oid2 =
              (Inl DuplicateResourceError, pages1))"
proof (intro conjI impI allI)
  assume "\<exists>d \<in> set pages. page_key d = (PageCreate.site_id page_data, PStr u)"
  with assms show "create_page sha256 py_str sites pages page_data now oid =
      (Inl DuplicateResourceError, pages)"
    by (rule create_page_duplicate)
next
  assume uq: "unique_pages pages"
  obtain res pages1 where cp: "create_page sha256 py_str sites pages page_data now oid = (res, pages1)"
    by (cases "create_page sha256 py_str sites pages page_data now oid")
  show "unique_pages (snd (create_page sha256 py_str sites pages page_data now oid))"
  proof (cases res)
    case (Inl e)
    with cp have "pages1 = pages" using create_page_failure by blast
    with cp uq show ?thesis by simp
  next
    case (Inr r)
    with cp create_page_success obtain u' doc where
      "pages1 = pages @ [doc]" "page_key doc = (PageCreate.site_id page_data, PStr u')"
      "\<forall>d \<in> set pages. page_key d \<noteq> (PageCreate.site_id page_data, PStr u')"
      by blast
    with uq have "unique_pages pages1" by (auto simp: unique_pages_def)
    with cp show ?thesis by simp
  qed
next
  fix other :: PageCreate and r pages1 now2 oid2
  assume a: "create_page sha256 py_str sites pages page_data now oid = (Inr r, pages1) \<and>
            PageCreate.site_id other = PageCreate.site_id page_data \<and>
            takeWhile (\<lambda>c. c \<noteq> CHR ''#'') (PageCreate.url other) =
              takeWhile (\<lambda>c. c \<noteq> CHR ''#'') (PageCreate.url page_data)"
  with create_page_success obtain u' doc where s:
      "normalize_url (PageCreate.url page_data) = Inr u'"
      "pages1 = pages @ [doc]" "page_key doc = (PageCreate.site_id page_data, PStr u')"
    by blast
  with assms(2) have "u' = u" by simp
  have "normalize_url (PageCreate.url other) =
      normalize_url (takeWhile (\<lambda>c. c \<noteq> CHR ''#'') (PageCreate.url other))"
    by (rule normalize_url_drops_fragment[symmetric])
  also have "\<dots> = normalize_url (takeWhile (\<lambda>c. c \<noteq> CHR ''#'') (PageCreate.url page_data))"
    using a by simp
  also have "\<dots> = Inr u" using assms(2) by (simp only: normalize_url_drops_fragment)
  finally have n: "normalize_url (PageCreate.url other) = Inr u" .
  from a assms(1) have e: "get_crawl_configuration sites (PageCreate.site_id other) \<noteq> None"
    by simp
  from s \<open>u' = u\<close> a have d: "\<exists>d \<in> set pages1. page_key d = (PageCreate.site_id other, PStr u)"
    by auto
  from e n d show "create_page sha256 py_str sites pages1 other now2 oid2 =
      (Inl DuplicateResourceError, pages1)"
    by (rule create_page_duplicate)
qed

text \<open>For instance \<open>https://example.com/article\<close>, created first, and
  \<open>https://example.com/article#top\<close> with the same \<open>site_id\<close> value, rejected.\<close>

lemma create_page_rejects_same_value_example:
  "create_page (\<lambda>s. s) (\<lambda>v. []) example_sites []
     (example_page_create ''https://example.com/article'') 1000 oid_a =
     (Inr (PStr oid_a), example_pages (\<lambda>s. s)) \<and>
   create_page (\<lambda>s. s) (\<lambda>v. []) example_sites (example_pages (\<lambda>s. s))
     (example_page_create ''https://example.com/article#top'') 2000 oid_b =
     (Inl DuplicateResourceError, example_pages (\<lambda>s. s))"
proof -
  let ?first = "example_page_create ''https://example.com/article''"
  let ?second = "example_page_create ''https://example.com/article#top''"
  have site: "get_crawl_configuration example_sites (PageCreate.site_id ?first) \<noteq> None"
    by code_simp
  have norm: "normalize_url (PageCreate.url ?first) = Inr ''https://example.com/article''"
    by code_simp
  have first: "create_page (\<lambda>s. s) (\<lambda>v. []) example_sites [] ?first 1000 oid_a =
      (Inr (PStr oid_a), example_pages (\<lambda>s. s))"
    by code_simp
  have same: "PageCreate.site_id ?second = PageCreate.site_id ?first"
    "takeWhile (\<lambda>c. c \<noteq> CHR ''#'') (PageCreate.url ?second) =
      takeWhile (\<lambda>c. c \<noteq> CHR ''#'') (PageCreate.url ?first)"
    by (simp_all add: example_page_create_def)
  from create_page_rejects_same_value[OF site norm, of "[]" "\<lambda>s. s" "\<lambda>v. []" 1000 oid_a]
  have "\<forall>(other :: PageCreate) r pages1 now2 oid2.
            create_page (\<lambda>s. s) (\<lambda>v. []) example_sites [] ?first 1000 oid_a = (Inr r, pages1) \<and>
            PageCreate.site_id other = PageCreate.site_id ?first \<and>
            takeWhile (\<lambda>c. c \<noteq> CHR ''#'') (PageCreate.url other) =
              takeWhile (\<lambda>c. c \<noteq> CHR ''#'') (PageCreate.url ?first) \<longrightarrow>
            create_page (\<lambda>s. s) (\<lambda>v. []) example_sites pages1 other now2 oid2 =
              (Inl DuplicateResourceError, pages1)"
    by blast
  with first same have "create_page (\<lambda>s. s) (\<lambda>v. []) example_sites (example_pages (\<lambda>s. s))
     ?second 2000 oid_b = (Inl DuplicateResourceError, example_pages (\<lambda>s. s))"
    by blast
  with first show ?thesis by simp
qed

text \<open>
  Claim C7 at one site named once by its \<open>ObjectId\<close> and once by the string of that id.
  Both values pass the check that the site exists, which converts them to the same
  \<open>ObjectId\<close>, but \<open>create_page\<close> looks for the duplicate and stores the page with the value
  as it was passed: after \<open>https://example.com/article\<close> was created for the site, the
  second \<open>create_page\<close> for the same site and the same URL succeeds, and the collection holds
  two pages of that site with that normalised URL.
\<close>

theorem create_page_failing_input:
  "create_page sha256 py_str example_sites []
     (example_page_create ''https://example.com/article'') 1000 oid_a =
     (Inr (PStr oid_a), example_pages sha256) \<and>
   validate_object_id (PageCreate.site_id (example_page_create_str ''https://example.com/article'')) =
     validate_object_id (PageCreate.site_id (example_page_create ''https://example.com/article'')) \<and>
   get_crawl_configuration example_sites (PStr oid_c) =
     get_crawl_configuration example_sites (PObjectId oid_c) \<and>
   get_crawl_configuration example_sites (PStr oid_c) \<noteq> None \<and>
   create_page sha256 py_str example_sites (example_pages sha256)
     (example_page_create_str ''https://example.com/article'') 2000 oid_b =
     (Inr (PStr oid_b),
      example_pages sha256 @
      [[(''_id'', PObjectId oid_b),
        (''site_id'', PStr oid_c),
        (''url'', PStr ''https://example.com/article''),
        (''title'', PStr ''Article''),
        (''content'', PStr ''old text''),
        (''content_hash'', PStr (sha256 ''old text'')),
        (''author'', PNone),
        (''published_date'', PNone),
        (''processing_status'', PStr ''pending''),
        (''content_length'', PInt 8),
        (''created_at'', PDatetime 2000),
        (''updated_at'', PDatetime 2000),
        (''last_modified'', PDatetime 2000)]])"
  by code_simp

section \<open>Content changes: the stored priority\<close>

lemma insert_one_change_doc:
  "\<exists>doc. insert_one sha256 py_str changes
           (PDict [(''page_id'', a), (''change_type'', b), (''site_id'', c), (''url'', d),
                   (''title'', e), (''previous_hash'', f), (''new_hash'', g),
                   (''priority'', PStr p), (''notification_sent'', PBool False),
                   (''detected_at'', PDatetime now), (''context'', h)]) now oid =
           (Inr (PStr oid), changes @ [doc]) \<and> field_value doc ''priority'' = PStr p"
  by (simp add: insert_one_def Let_def startswith_dollar_def dict_get_def coll_insert_one_def
      field_value_def str_of_def)

text \<open>The derivation rules of \<open>_determine_change_priority\<close>.\<close>

lemma determine_deleted: "determine_change_priority (PStr ''deleted'') ctx = Inr ''high''"
  by (simp add: determine_change_priority_def)

lemma determine_new:
  "determine_change_priority (PStr ''new'') (PDict d) =
     Inr (if truthy (get_default d ''author_known'' (PBool False)) \<or>
             truthy (get_default d ''philosophical_content'' (PBool False))
          then ''high'' else ''medium'')"
  by (cases d) (simp_all add: determine_change_priority_def get_default_def dict_get_def)

lemma determine_modified:
  "determine_change_priority (PStr ''modified'') (PDict [(''content_change_ratio'', PFloat x)]) =
     Inr (if x > 1 / 2 then ''high''
          else if x > 3602879701896397 / 36028797018963968 then ''medium'' else ''low'')"
  by (simp add: determine_change_priority_def get_default_def dict_get_def py_number_def
      float_0_5_def float_0_1_def)

text \<open>What a successful call went through: the change as it is after the look-up of its page
  differs from the argument in \<open>url\<close> and \<open>title\<close> at most.\<close>

lemma record_content_change_stored:
  assumes "record_content_change sha256 py_str pages changes change now oid = (Inr r, changes')"
    and "priority change = PStr p \<or> \<not> truthy (priority change)"
  shows "\<exists>q. (if truthy (priority change) then Inr p
               else determine_change_priority (change_type change) (context' change)) = Inr q \<and>
             stored_priority changes' = PStr q"
proof -
  let ?looked = "if change_type change \<in> {PStr ''new'', PStr ''modified''}
               then (case find_one pages (PDict [(''_id'', page_id change)]) of
                       Inl e \<Rightarrow> Inl e
                     | Inr None \<Rightarrow> Inl (PydanticCustomError ''missing_page_id'')
                     | Inr (Some page) \<Rightarrow>
                         Inr (change\<lparr>url := if \<not> truthy (url change)
                                            then get_default page ''url'' PNone
                                            else url change,
                                     title := if \<not> truthy (title change)
                                              then get_default page ''title'' PNone
                                              else title change\<rparr>))
               else Inr change"
  from assms(1) have v: "truthy (page_id change)" "truthy (site_id change)"
    by (auto simp: record_content_change_def split: if_splits)
  from assms(1) have v2: "\<not> (\<not> truthy (change_type change) \<or>
              (case change_type change of PStr s \<Rightarrow> s \<notin> set CHANGE_TYPES | _ \<Rightarrow> True))"
    by (auto simp: record_content_change_def split: if_splits)
  obtain change1 where c1: "?looked = Inr change1"
    using assms(1) v v2 by (cases ?looked) (simp_all add: record_content_change_def)
  then have same: "priority change1 = priority change" "change_type change1 = change_type change"
    "context' change1 = context' change"
    by (auto split: if_splits sum.splits option.splits)
  let ?prio = "if \<not> truthy (priority change1)
                    then map_sum (\<lambda>e. e) PStr
                           (determine_change_priority (change_type change1) (context' change1))
                    else Inr (priority change1)"
  obtain prio where pr: "?prio = Inr prio"
    using assms(1) v v2 c1 by (cases ?prio) (simp_all add: record_content_change_def)
  have ex: "\<exists>q. (if truthy (priority change) then Inr p
               else determine_change_priority (change_type change) (context' change)) = Inr q \<and>
             prio = PStr q"
  proof (cases "truthy (priority change)")
    case True
    with assms(2) have pp: "priority change = PStr p" by blast
    with True have ne: "p \<noteq> []" by simp
    from pr same(1) pp ne have "prio = PStr p" by (simp split: if_splits)
    with True show ?thesis by simp
  next
    case False
    with pr same have "map_sum (\<lambda>e. e) PStr
        (determine_change_priority (change_type change) (context' change)) = Inr prio"
      by simp
    then obtain q where "determine_change_priority (change_type change) (context' change) = Inr q"
      "prio = PStr q"
      by (cases "determine_change_priority (change_type change) (context' change)") auto
    with False show ?thesis by simp
  qed
  then obtain q where q: "(if truthy (priority change) then Inr p
               else determine_change_priority (change_type change) (context' change)) = Inr q"
     "prio = PStr q" by blast
  from insert_one_change_doc obtain doc where
    "insert_one sha256 py_str changes
           (PDict [(''page_id'', page_id change1), (''change_type'', change_type change1),
                   (''site_id'', site_id change1), (''url'', url change1),
                   (''title'', title change1), (''previous_hash'', previous_hash change1),
                   (''new_hash'', new_hash change1),
                   (''priority'', PStr q), (''notification_sent'', PBool False),
                   (''detected_at'', PDatetime now), (''context'', context' change1)]) now oid =
           (Inr (PStr oid), changes @ [doc])" "field_value doc ''priority'' = PStr q"
    by blast
  with assms(1) v v2 c1 pr q(2) have "changes' = changes @ [doc]"
    by (simp add: record_content_change_def Let_def)
  with \<open>field_value doc ''priority'' = PStr q\<close> have "stored_priority changes' = PStr q"
    by (simp add: stored_priority_def)
  with q(1) show ?thesis by blast
qed


text \<open>
  When \<open>record_content_change\<close> succeeds on a change whose priority is unset (\<open>None\<close> or
  empty), the stored priority is the one derived from the change type and the context; a
  priority that is set is stored as it is. The derivation: deleted gives high; new gives high
  when the context has a true \<open>author_known\<close> or \<open>philosophical_content\<close> and medium
  otherwise; modified gives high for a \<open>content_change_ratio\<close> above 0.5, medium above 0.1
  and low otherwise.
\<close>

lemma record_content_change_priority:
  assumes "record_content_change sha256 py_str pages changes change now oid = (Inr r, changes')"
    and "priority change = PStr p \<or> \<not> truthy (priority change)"
  shows "(\<exists>q. (if truthy (priority change) then Inr p
               else determine_change_priority (change_type change) (context' change)) = Inr q \<and>
              stored_priority changes' = PStr q) \<and>
         determine_change_priority (PStr ''deleted'') ctx = Inr ''high'' \<and>
         determine_change_priority (PStr ''new'') (PDict d) =
           Inr (if truthy (get_default d ''author_known'' (PBool False)) \<or>
                   truthy (get_default d ''philosophical_content'' (PBool False))
                then ''high'' else ''medium'') \<and>
         determine_change_priority (PStr ''modified'')
             (PDict [(''content_change_ratio'', PFloat x)]) =
           Inr (if x > 1 / 2 then ''high''
                else if x > 3602879701896397 / 36028797018963968 then ''medium'' else ''low'')"
  using record_content_change_stored[OF assms] determine_deleted determine_new
    determine_modified
  by blast

text \<open>A modification by the ratio 0.6 whose priority is passed as \<open>None\<close> is stored with the
  priority high; with the ratios 0.2 and 0.05 the stored priorities are medium and low.\<close>

lemma record_content_change_unset_priority:
  "stored_priority (snd (record_content_change (\<lambda>s. s) (\<lambda>v. []) (example_pages (\<lambda>s. s)) []
      (modified_change float_0_6 [(''priority'', PNone)]) 3000 oid_b)) = PStr ''high'' \<and>
   stored_priority (snd (record_content_change (\<lambda>s. s) (\<lambda>v. []) (example_pages (\<lambda>s. s)) []
      (modified_change float_0_2 [(''priority'', PNone)]) 3000 oid_b)) = PStr ''medium'' \<and>
   stored_priority (snd (record_content_change (\<lambda>s. s) (\<lambda>v. []) (example_pages (\<lambda>s. s)) []
      (modified_change float_0_05 [(''priority'', PNone)]) 3000 oid_b)) = PStr ''low''"
proof -
  let ?change = "modified_change float_0_6 [(''priority'', PNone)]"
  obtain r changes' where
    res: "record_content_change (\<lambda>s. s) (\<lambda>v. []) (example_pages (\<lambda>s. s)) [] ?change 3000 oid_b =
      (r, changes')"
    by (cases "record_content_change (\<lambda>s. s) (\<lambda>v. []) (example_pages (\<lambda>s. s)) [] ?change 3000
      oid_b")
  have ok: "fst (record_content_change (\<lambda>s. s) (\<lambda>v. []) (example_pages (\<lambda>s. s)) [] ?change 3000
      oid_b) = Inr (PStr oid_b)"
    by code_simp
  with res have res': "record_content_change (\<lambda>s. s) (\<lambda>v. []) (example_pages (\<lambda>s. s)) []
      ?change 3000 oid_b = (Inr (PStr oid_b), changes')"
    by simp
  have unset: "priority ?change = PStr [] \<or> \<not> truthy (priority ?change)"
    by code_simp
  have d: "determine_change_priority (change_type ?change) (context' ?change) = Inr ''high''"
    by code_simp
  have t: "\<not> truthy (priority ?change)" by code_simp
  from record_content_change_priority[OF res' unset] d t
  have "stored_priority changes' = PStr ''high''" by auto
  with res have one: "stored_priority (snd (record_content_change (\<lambda>s. s) (\<lambda>v. [])
      (example_pages (\<lambda>s. s)) [] ?change 3000 oid_b)) = PStr ''high''"
    by simp
  have two: "stored_priority (snd (record_content_change (\<lambda>s. s) (\<lambda>v. []) (example_pages (\<lambda>s. s)) []
      (modified_change float_0_2 [(''priority'', PNone)]) 3000 oid_b)) = PStr ''medium''"
    by code_simp
  have three: "stored_priority (snd (record_content_change (\<lambda>s. s) (\<lambda>v. [])
      (example_pages (\<lambda>s. s)) []
      (modified_change float_0_05 [(''priority'', PNone)]) 3000 oid_b)) = PStr ''low''"
    by code_simp
  from one two three show ?thesis by blast
qed

text \<open>A priority that the caller gives is kept: a modification by the ratio 0.6 recorded with
  the priority low is stored with the priority low.\<close>

lemma record_content_change_explicit_priority:
  "determine_change_priority (PStr ''modified'')
     (PDict [(''content_change_ratio'', PFloat float_0_6)]) = Inr ''high'' \<and>
   stored_priority (snd (record_content_change (\<lambda>s. s) (\<lambda>v. []) (example_pages (\<lambda>s. s)) []
      (modified_change float_0_6 [(''priority'', PStr ''low'')]) 3000 oid_b)) = PStr ''low''"
  by code_simp

text \<open>
  Claim C8 at changes built by the constructor with no priority, as a caller that leaves the
  priority to the repository builds them: the constructor gives them the priority medium,
  which counts as set, so nothing is derived. The modification by the ratio 0.6, for which
  high is derived, is recorded with success and stored with the priority medium; so is the
  modification by the ratio 0.05, for which low is derived.
\<close>

theorem record_content_change_failing_input:
  "priority (modified_change float_0_6 []) = PStr ''medium'' \<and>
   determine_change_priority (change_type (modified_change float_0_6 []))
     (context' (modified_change float_0_6 [])) = Inr ''high'' \<and>
   fst (record_content_change sha256 py_str (example_pages sha256) []
      (modified_change float_0_6 []) 3000 oid_b) = Inr (PStr oid_b) \<and>
   stored_priority (snd (record_content_change sha256 py_str (example_pages sha256) []
      (modified_change float_0_6 []) 3000 oid_b)) = PStr ''medium'' \<and>
   determine_change_priority (change_type (modified_change float_0_05 []))
     (context' (modified_change float_0_05 [])) = Inr ''low'' \<and>
   stored_priority (snd (record_content_change sha256 py_str (example_pages sha256) []
      (modified_change float_0_05 []) 3000 oid_b)) = PStr ''medium''"
  by code_simp

text \<open>The same run with the identity for the digest and the empty text for \<open>str\<close>.\<close>

theorem record_content_change_failing_input_witness:
  "priority (modified_change float_0_6 []) = PStr ''medium'' \<and>
   determine_change_priority (change_type (modified_change float_0_6 []))
     (context' (modified_change float_0_6 [])) = Inr ''high'' \<and>
   fst (record_content_change (\<lambda>s. s) (\<lambda>v. []) (example_pages (\<lambda>s. s)) []
      (modified_change float_0_6 []) 3000 oid_b) = Inr (PStr oid_b) \<and>
   stored_priority (snd (record_content_change (\<lambda>s. s) (\<lambda>v. []) (example_pages (\<lambda>s. s)) []
      (modified_change float_0_6 []) 3000 oid_b)) = PStr ''medium'' \<and>
   determine_change_priority (change_type (modified_change float_0_05 []))
     (context' (modified_change float_0_05 [])) = Inr ''low'' \<and>
   stored_priority (snd (record_content_change (\<lambda>s. s) (\<lambda>v. []) (example_pages (\<lambda>s. s)) []
      (modified_change float_0_05 []) 3000 oid_b)) = PStr ''medium''"
  by (rule record_content_change_failing_input)

section \<open>Content hashing\<close>

text \<open>The primitives themselves: a document inserted with a \<open>content\<close> key is stored with
  the hash of that content, and an update whose plain fields hold a \<open>content\<close> key sets the
  hash of that content along with it.\<close>

lemma insert_one_content_hash:
  assumes "dict_get (sanitize_items d) ''content'' = Some c"
  shows "\<exists>r doc. insert_one sha256 py_str coll (PDict d) now oid = (Inr r, coll @ [doc]) \<and>
           field_value doc ''content'' = c \<and>
           field_value doc ''content_hash'' = PStr (generate_content_hash sha256 py_str c)"
  using assms
  by (cases "map_of (sanitize_items d) ''_id''")
     (simp_all add: insert_one_def Let_def dict_get_def map_of_dict_set coll_insert_one_def
        field_value_def)

lemma update_one_content_hash:
  assumes "dict_get (sanitize_items u) ''content'' = Some c"
  shows "update_one sha256 py_str coll (PDict q) (PDict u) now =
     (Inr (fst (coll_update_one coll (sanitize_items q)
                  (dict_set (dict_set (sanitize_items u) ''updated_at'' (PDatetime now))
                     ''content_hash'' (PStr (generate_content_hash sha256 py_str c)))) > 0),
      snd (coll_update_one coll (sanitize_items q)
             (dict_set (dict_set (sanitize_items u) ''updated_at'' (PDatetime now))
                ''content_hash'' (PStr (generate_content_hash sha256 py_str c)))))"
  using assms
  by (simp add: update_one_def Let_def dict_get_def map_of_dict_set split: prod.splits)

text \<open>\<open>update_page_content\<close> wraps its fields in \<open>$set\<close>: the primitive sees no
  \<open>content\<close> key, computes no hash and writes neither the content nor a hash.\<close>

lemma update_page_content_never_succeeds:
  "fst (update_page_content sha256 py_str pages pid c h now) = False"
  by (auto simp: update_page_content_def update_one_set_wrapper modified_count_def Let_def
      split: sum.splits)

text \<open>
  Claim C9 at a stored page with the content \<open>old text\<close>:
  \<open>update_page_content(id, "new text", "bogus")\<close> returns \<open>False\<close>; the page keeps the old
  content and the hash of the old content, so the hash of the new content is not written
  (nor is the caller's hash). Only \<open>updated_at\<close> changes.
\<close>

theorem update_page_content_failing_input:
  "update_page_content sha256 py_str (example_pages sha256) (PObjectId oid_a) ''new text''
     ''bogus'' 2000 =
     (False,
      [[(''_id'', PObjectId oid_a),
        (''site_id'', PObjectId oid_c),
        (''url'', PStr ''https://example.com/article''),
        (''title'', PStr ''Article''),
        (''content'', PStr ''old text''),
        (''content_hash'', PStr (sha256 ''old text'')),
        (''author'', PNone),
        (''published_date'', PNone),
        (''processing_status'', PStr ''pending''),
        (''content_length'', PInt 8),
        (''created_at'', PDatetime 1000),
        (''updated_at'', PDatetime 2000),
        (''last_modified'', PDatetime 1000)]])"
  by code_simp

section \<open>The circuit breaker and the retry wrapper\<close>

lemma record_failure_state:
  "state (record_failure t cb) = OPEN \<or>
   (state cb = CLOSED \<and> state (record_failure t cb) = CLOSED \<and>
    failure_count (record_failure t cb) = failure_count cb + 1 \<and>
    failure_count (record_failure t cb) < failure_threshold (config cb)) \<or>
   (state cb = OPEN)"
  by (cases "state cb") (auto simp: record_failure_def Let_def)

lemma record_failure_OPEN [simp]: "state cb = OPEN \<Longrightarrow> state (record_failure t cb) = OPEN"
  by (simp add: record_failure_def Let_def)

lemma record_failure_HALF_OPEN [simp]: "state cb = HALF_OPEN \<Longrightarrow> state (record_failure t cb) = OPEN"
  by (simp add: record_failure_def Let_def)

lemma record_failure_config [simp]: "config (record_failure t cb) = config cb"
  by (simp add: record_failure_def Let_def)

lemma record_failure_count [simp]: "failure_count (record_failure t cb) = failure_count cb + 1"
  by (simp add: record_failure_def Let_def)

lemma record_failure_time [simp]: "last_failure_time (record_failure t cb) = Some t"
  by (simp add: record_failure_def Let_def)







lemma open_rejects:
  assumes "state cb = OPEN" "last_failure_time cb = Some t"
    "clock 0 - t < seconds (recovery_timeout (config cb))"
  shows "with_retry cb clock operation m =
    (Inl (ConnectionError ''Circuit breaker is OPEN - operation blocked''), cb, 0)"
  using assms by (simp add: with_retry_def can_execute_def)




section \<open>Repository methods and the circuit breaker\<close>

text \<open>A document that fails validation never reaches \<open>_with_retry\<close>: the breaker is as it
  was.\<close>

lemma insert_one_cb_validation:
  "sanitize_input document = Inl e \<Longrightarrow>
   insert_one_cb sha256 py_str cb clock store coll document now oid = (Inl e, cb, coll)"
  by (simp add: insert_one_cb_def)

text \<open>With a closed breaker and a store that answers, the method is \<open>insert_one\<close> as modelled
  without the breaker, and the success is recorded.\<close>

lemma insert_one_cb_insert_one:
  assumes "sanitize_input document = Inr d" and "state cb = CLOSED" and "store 0 = Returned ()"
  shows "insert_one_cb sha256 py_str cb clock store coll document now oid =
           (fst (insert_one sha256 py_str coll document now oid), record_success cb,
            snd (insert_one sha256 py_str coll document now oid))"
  using assms
  by (auto simp: insert_one_cb_def insert_one_def with_retry_def can_execute_def Let_def upt_rec
      split: sum.splits prod.splits option.splits)

text \<open>An error of the driver inside the operation is recorded, and an open breaker rejects the
  call before the store is reached.\<close>

lemma insert_one_cb_records_failure:
  assumes "sanitize_input document = Inr d" and "fst (can_execute (clock 0) cb)"
    and "store 0 = RaisedOther"
  shows "insert_one_cb sha256 py_str cb clock store coll document now oid =
           (Inl RepositoryError, record_failure (clock 1) (snd (can_execute (clock 0) cb)), coll)"
  using assms
  by (auto simp: insert_one_cb_def with_retry_def Let_def upt_rec
      split: sum.splits prod.splits option.splits)

lemma insert_one_cb_rejected:
  assumes "sanitize_input document = Inr d" and "\<not> fst (can_execute (clock 0) cb)"
  shows "insert_one_cb sha256 py_str cb clock store coll document now oid =
           (Inl (ConnectionError ''Circuit breaker is OPEN - operation blocked''), cb, coll)"
  using assms
  by (auto simp: insert_one_cb_def with_retry_def can_execute_def Let_def
      split: sum.splits prod.splits option.splits CircuitBreakerState.splits if_splits)



end
